theory Spec2Isabelle
  imports Main "HOL-Library.Word" "HOL-Library.Monad_Syntax"
begin

section \<open>The fully connected layer of tiny-dnn\<close>

text \<open>
  A shallow embedding of \<^verbatim>\<open>src/tiny_dnn/layers/fully_connected_layer.h\<close>.
  The class \<^verbatim>\<open>fully_connected_layer\<close> is a record of its base sub-object and its
  five members; each member function is a function on that record. Objects that
  are reached through pointers (the tensors of a call, the descriptor a kernel
  refers back to) are named by addresses, and the layer objects themselves live
  in a store from addresses to records.

  The header includes \<^verbatim>\<open>layer.h\<close> and the two kernel headers, none of which is
  part of the sources. What the class uses from them is modelled below from the
  specification, each definition saying so, and whatever the specification
  leaves open (default values, the printing of a backend, the storage of a
  freshly allocated tensor) is a field of the record \<open>collaborators\<close> that
  every constructor takes as an argument.
\<close>

subsection \<open>Types of the collaborators\<close>

type_synonym size_t = "64 word"

type_synonym addr = nat

text \<open>
  Modelled from the spec: the backend enumeration \<^verbatim>\<open>backend_t\<close> ("a Backend
  enumeration owned externally"). The header names three of its values;
  \<open>other_backend k\<close> stands for every further value of the enumeration.
\<close>

datatype backend_t = internal | avx | nnpack | other_backend nat

text \<open>
  Modelled from the spec: the channel kinds \<^verbatim>\<open>vector_type\<close> of the base class.
  The header names \<^verbatim>\<open>vector_type::data\<close> only.
\<close>

datatype vector_type = data | other_vector_type nat

text \<open>
  Modelled from the spec: the role tag of a parameter, \<^verbatim>\<open>parameter_type::weight\<close> or
  \<^verbatim>\<open>parameter_type::bias\<close>.
\<close>

datatype parameter_type = parameter_type_weight | parameter_type_bias

text \<open>
  Modelled from the spec: a parameter is "a typed tensor with a role tag, marked
  trainable". \<open>p_shape\<close> keeps the four extents in the order in which
  \<^verbatim>\<open>add_parameter\<close> receives them; \<open>p_tensor\<close> is the parameter's storage, of an
  opaque type \<open>'t\<close>.
\<close>

record 't Parameter =
  p_shape :: "size_t \<times> size_t \<times> size_t \<times> size_t"
  p_type :: parameter_type
  p_trainable :: bool
  p_tensor :: 't

text \<open>
  Modelled from the spec: the state of the base class \<^verbatim>\<open>layer\<close> that this header
  reads or writes: the channel kinds given to its constructor, the registered
  parameters, the parallelism flag, the backend handle and the device binding.
\<close>

record 't layer =
  layer_in_type :: "vector_type list"
  layer_out_type :: "vector_type list"
  layer_parameters :: "'t Parameter list"
  layer_parallelize :: bool
  layer_backend_type :: backend_t
  layer_device :: "addr option"

text \<open>
  Modelled from the spec: the execution context \<^verbatim>\<open>OpKernelContext\<close>, "a rebindable
  aggregate of references plus three hints". A reference to a vector of tensor
  pointers is the list of the tensors' addresses, \<open>None\<close> while nothing is bound.
\<close>

record 't OpKernelContext =
  ctx_in_data :: "addr list option"
  ctx_out_data :: "addr list option"
  ctx_out_grad :: "addr list option"
  ctx_in_grad :: "addr list option"
  ctx_parallelize :: bool
  ctx_engine :: backend_t
  ctx_parameters :: "'t Parameter list"

text \<open>
  Modelled from the spec: what a kernel is constructed from,
  \<^verbatim>\<open>OpKernelConstruction(layer::device(), &params_)\<close>: the device binding and a
  back-reference to the descriptor. The pointer \<^verbatim>\<open>&params_\<close> is represented by the
  address of the layer object whose member it points to.
\<close>

record OpKernelConstruction =
  oc_device :: "addr option"
  oc_params :: addr

text \<open>
  Modelled from the spec: the two kernel classes the header instantiates. Their
  \<^verbatim>\<open>compute\<close> is a parameter of the propagation functions below.
\<close>

datatype OpKernel =
  FullyConnectedOp OpKernelConstruction
| FullyConnectedGradOp OpKernelConstruction

fun construction :: "OpKernel \<Rightarrow> OpKernelConstruction" where
  "construction (FullyConnectedOp c) = c"
| "construction (FullyConnectedGradOp c) = c"

datatype nn_error = nn_error string

datatype shape3d = shape3d size_t size_t size_t

subsection \<open>Types of the header\<close>

text \<open>
  \<^verbatim>\<open>struct layer_params\<close> and \<^verbatim>\<open>struct fully_connected_layer_params\<close>, with the field
  names of the source (the first one is spelt \<^verbatim>\<open>parallellze\<close> there).
\<close>

record layer_params =
  parallellze :: bool
  backend_type :: backend_t

record fully_connected_layer_params = layer_params +
  bias :: bool

text \<open>The descriptor \<^verbatim>\<open>fully_params\<close>, as \<^verbatim>\<open>set_params\<close> writes it.\<close>

record fully_params =
  in_size :: size_t
  out_size :: size_t
  has_bias :: bool

text \<open>
  The class itself: the base sub-object, then the private members in their order
  of declaration. A \<^verbatim>\<open>shared_ptr\<close> to a kernel is \<open>None\<close> when it is null.
\<close>

record 't fully_connected_layer =
  base :: "'t layer"
  params :: fully_params
  fwd_ctx :: "'t OpKernelContext"
  bwd_ctx :: "'t OpKernelContext"
  kernel_fwd :: "OpKernel option"
  kernel_back :: "OpKernel option"

text \<open>
  What the specification leaves to the surrounding library: how a backend is
  printed, \<^verbatim>\<open>std_input_order\<close>, the members a fresh base object, a fresh context
  and a fresh descriptor start with, and the storage allocated for a parameter
  of given extents.
\<close>

record 't collaborators =
  to_string :: "backend_t \<Rightarrow> string"
  std_input_order :: "bool \<Rightarrow> vector_type list"
  new_layer :: "'t layer"
  new_context :: "'t OpKernelContext"
  new_fully_params :: fully_params
  new_tensor :: "size_t \<times> size_t \<times> size_t \<times> size_t \<Rightarrow> 't"

subsection \<open>Operations of the base class\<close>

text \<open>
  Modelled from the spec: the constructor \<^verbatim>\<open>layer(in_types, out_types)\<close>. It keeps
  the channel kinds and starts with no parameter registered.
\<close>

definition layer_ctor ::
  "'t collaborators \<Rightarrow> vector_type list \<Rightarrow> vector_type list \<Rightarrow> 't layer" where
  "layer_ctor env ins outs =
     (new_layer env)\<lparr>layer_in_type := ins, layer_out_type := outs, layer_parameters := []\<rparr>"

text \<open>
  Modelled from the spec: "parameter registration (\<^verbatim>\<open>add_parameter(shape, role,
  trainable)\<close>)": one parameter of the given extents, role and trainability is
  allocated and appended to the registered list.
\<close>

definition add_parameter ::
  "'t collaborators \<Rightarrow> 't layer \<Rightarrow> size_t \<Rightarrow> size_t \<Rightarrow> size_t \<Rightarrow> size_t \<Rightarrow>
     parameter_type \<Rightarrow> bool \<Rightarrow> 't layer" where
  "add_parameter env l a b c d role trainable =
     l\<lparr>layer_parameters := layer_parameters l @
        [\<lparr>p_shape = (a, b, c, d), p_type = role, p_trainable = trainable,
          p_tensor = new_tensor env (a, b, c, d)\<rparr>]\<rparr>"

text \<open>
  Modelled from the spec: the accessors \<^verbatim>\<open>parallelize()\<close>, \<^verbatim>\<open>engine()\<close>,
  \<^verbatim>\<open>parameters()\<close>, \<^verbatim>\<open>device()\<close> and the setter \<^verbatim>\<open>set_backend_type\<close> of the base class.
\<close>

definition parallelize :: "'t layer \<Rightarrow> bool" where
  "parallelize l = layer_parallelize l"

definition engine :: "'t layer \<Rightarrow> backend_t" where
  "engine l = layer_backend_type l"

definition parameters :: "'t layer \<Rightarrow> 't Parameter list" where
  "parameters l = layer_parameters l"

definition device :: "'t layer \<Rightarrow> addr option" where
  "device l = layer_device l"

definition set_backend_type :: "'t layer \<Rightarrow> backend_t \<Rightarrow> 't layer" where
  "set_backend_type l bt = l\<lparr>layer_backend_type := bt\<rparr>"

text \<open>
  Modelled from the spec: the move constructor of the base class, an ownership
  transfer. The new object takes every member; the moved-from object keeps its
  scalar members and no longer owns the parameters.
\<close>

definition layer_move :: "'t layer \<Rightarrow> 't layer \<times> 't layer" where
  "layer_move l = (l, l\<lparr>layer_parameters := []\<rparr>)"

subsection \<open>Operations of the execution context\<close>

text \<open>
  Modelled from the spec: the two overloads of \<^verbatim>\<open>set_in_out\<close> and the three hint
  setters. Each writes the references or the hint it is given and nothing else.
\<close>

definition set_in_out2 ::
  "'t OpKernelContext \<Rightarrow> addr list \<Rightarrow> addr list \<Rightarrow> 't OpKernelContext" where
  "set_in_out2 c in_data out_data =
     c\<lparr>ctx_in_data := Some in_data, ctx_out_data := Some out_data\<rparr>"

definition set_in_out4 ::
  "'t OpKernelContext \<Rightarrow> addr list \<Rightarrow> addr list \<Rightarrow> addr list \<Rightarrow> addr list \<Rightarrow>
     't OpKernelContext" where
  "set_in_out4 c in_data out_data out_grad in_grad =
     c\<lparr>ctx_in_data := Some in_data, ctx_out_data := Some out_data,
       ctx_out_grad := Some out_grad, ctx_in_grad := Some in_grad\<rparr>"

definition setParallelize :: "'t OpKernelContext \<Rightarrow> bool \<Rightarrow> 't OpKernelContext" where
  "setParallelize c p = c\<lparr>ctx_parallelize := p\<rparr>"

definition setEngine :: "'t OpKernelContext \<Rightarrow> backend_t \<Rightarrow> 't OpKernelContext" where
  "setEngine c e = c\<lparr>ctx_engine := e\<rparr>"

definition setParameters ::
  "'t OpKernelContext \<Rightarrow> 't Parameter list \<Rightarrow> 't OpKernelContext" where
  "setParameters c ps = c\<lparr>ctx_parameters := ps\<rparr>"

subsection \<open>The member functions of the header\<close>

text \<open>\<^verbatim>\<open>set_params\<close> (lines 117 to 121).\<close>

definition set_params ::
  "'t fully_connected_layer \<Rightarrow> size_t \<Rightarrow> size_t \<Rightarrow> bool \<Rightarrow> 't fully_connected_layer" where
  "set_params n i out hb =
     n\<lparr>params := (params n)\<lparr>in_size := i, out_size := out, has_bias := hb\<rparr>\<rparr>"

text \<open>
  The backends for which \<^verbatim>\<open>init_backend\<close> constructs kernels: the three values its
  condition compares with.
\<close>

definition supported_backends :: "backend_t set" where
  "supported_backends = {internal, avx, nnpack}"

text \<open>
  \<^verbatim>\<open>init_backend\<close> (lines 123 to 134). \<open>this\<close> is the address of the object the
  function is called on, which \<^verbatim>\<open>&params_\<close> needs. The \<^verbatim>\<open>throw\<close> is the result \<open>Inl\<close>.
\<close>

definition init_backend ::
  "'t collaborators \<Rightarrow> addr \<Rightarrow> 't fully_connected_layer \<Rightarrow> backend_t \<Rightarrow>
     nn_error + 't fully_connected_layer" where
  "init_backend env this n bt =
     (let ctx = \<lparr>oc_device = device (base n), oc_params = this\<rparr> in
      if bt = internal \<or> bt = avx \<or> bt = nnpack
      then Inr (n\<lparr>kernel_fwd := Some (FullyConnectedOp ctx),
                  kernel_back := Some (FullyConnectedGradOp ctx)\<rparr>)
      else Inl (nn_error (''Not supported engine: '' @ to_string env bt)))"

text \<open>
  The state of the object when the body of a constructor starts: the base
  sub-object as its constructor left it and every member default-initialised.
\<close>

definition default_members :: "'t collaborators \<Rightarrow> 't layer \<Rightarrow> 't fully_connected_layer" where
  "default_members env l =
     \<lparr>base = l, params = new_fully_params env, fwd_ctx = new_context env,
      bwd_ctx = new_context env, kernel_fwd = None, kernel_back = None\<rparr>"

text \<open>
  The constructor of lines 36 to 49, with all four arguments (the defaults
  \<^verbatim>\<open>bias = true\<close> and \<^verbatim>\<open>backend_type = core::default_engine()\<close> are filled in by the
  caller). When \<^verbatim>\<open>init_backend\<close> throws, the exception
  leaves the constructor; the result \<open>Inl (e, n)\<close> records the exception and the
  object \<open>n\<close> as it stood at that moment, which C++ then destroys: the caller
  gets no object.
\<close>

definition fully_connected_layer_new ::
  "'t collaborators \<Rightarrow> addr \<Rightarrow> size_t \<Rightarrow> size_t \<Rightarrow> bool \<Rightarrow> backend_t \<Rightarrow>
     (nn_error \<times> 't fully_connected_layer) + 't fully_connected_layer" where
  "fully_connected_layer_new env this in_features out_features use_bias bt =
     (let n0 = default_members env (layer_ctor env [data] [data]);
          n1 = n0\<lparr>base := add_parameter env (base n0) 1 1 out_features in_features
                              parameter_type_weight True\<rparr>;
          n2 = (if use_bias
                then n1\<lparr>base := add_parameter env (base n1) 1 1 1 out_features
                                    parameter_type_bias True\<rparr>
                else n1);
          n3 = set_params n2 in_features out_features use_bias
      in case init_backend env this n3 bt of
           Inl e \<Rightarrow> Inl (e, n3)
         | Inr n4 \<Rightarrow> Inr (n4\<lparr>base := set_backend_type (base n4) bt\<rparr>))"

text \<open>The constructor of lines 56 to 63, which takes the configuration record.\<close>

definition fully_connected_layer_of_params ::
  "'t collaborators \<Rightarrow> addr \<Rightarrow> size_t \<Rightarrow> size_t \<Rightarrow> fully_connected_layer_params \<Rightarrow>
     (nn_error \<times> 't fully_connected_layer) + 't fully_connected_layer" where
  "fully_connected_layer_of_params env this in_features out_features ps =
     (let n0 = default_members env (layer_ctor env (std_input_order env (bias ps)) [data]);
          n1 = set_params n0 in_features out_features (bias ps)
      in case init_backend env this n1 (backend_type ps) of
           Inl e \<Rightarrow> Inl (e, n1)
         | Inr n2 \<Rightarrow> Inr (n2\<lparr>base := set_backend_type (base n2) (backend_type ps)\<rparr>))"

text \<open>
  The move constructor of lines 66 to 72. Its initialiser list moves the base
  sub-object, the descriptor and the two kernel pointers; the two contexts are
  not in the list, so they are default-initialised. The body then calls
  \<^verbatim>\<open>init_backend\<close> with the backend handle read from the moved-from object. The
  result is the new object and what is left of the old one.
\<close>

definition fully_connected_layer_move ::
  "'t collaborators \<Rightarrow> addr \<Rightarrow> 't fully_connected_layer \<Rightarrow>
     (nn_error \<times> 't fully_connected_layer) +
     ('t fully_connected_layer \<times> 't fully_connected_layer)" where
  "fully_connected_layer_move env this other =
     (let (l, l_left) = layer_move (base other);
          n0 = \<lparr>base = l, params = params other, fwd_ctx = new_context env,
                bwd_ctx = new_context env, kernel_fwd = kernel_fwd other,
                kernel_back = kernel_back other\<rparr>;
          other_left = other\<lparr>base := l_left, kernel_fwd := None, kernel_back := None\<rparr>
      in case init_backend env this n0 (engine (base other_left)) of
           Inl e \<Rightarrow> Inl (e, n0)
         | Inr n1 \<Rightarrow> Inr (n1, other_left))"

text \<open>The accessors of lines 74 to 84 and \<^verbatim>\<open>layer_type\<close> of line 112.\<close>

definition fan_in_size :: "'t fully_connected_layer \<Rightarrow> size_t" where
  "fan_in_size n = in_size (params n)"

definition fan_out_size :: "'t fully_connected_layer \<Rightarrow> size_t" where
  "fan_out_size n = out_size (params n)"

definition in_shape :: "'t fully_connected_layer \<Rightarrow> shape3d list" where
  "in_shape n = [shape3d (in_size (params n)) 1 1]"

definition out_shape :: "'t fully_connected_layer \<Rightarrow> shape3d list" where
  "out_shape n = [shape3d (out_size (params n)) 1 1]"

definition layer_type :: "'t fully_connected_layer \<Rightarrow> string" where
  "layer_type n = ''fully-connected''"

subsection \<open>Forward and backward propagation\<close>

text \<open>
  Layer objects live in a store. A member function that dereferences a pointer
  takes the address \<open>this\<close> of its object and the store.
\<close>

type_synonym 't store = "addr \<Rightarrow> 't fully_connected_layer option"

text \<open>
  Modelled from the spec: the kernel interface \<^verbatim>\<open>OpKernel::compute(context)\<close>. The
  arithmetic of a kernel is outside this header, so it is the parameter \<open>K\<close>: given
  the kernel object, the descriptor the kernel sees, the context and the memory
  \<open>m\<close> of the tensors, it yields the effect \<open>K k p c m\<close> of the call. The kernel
  reads the descriptor through the back-reference it was constructed with; when
  no object lives at that address the reference dangles and the call has no
  defined result.
\<close>

definition OpKernel_compute ::
  "(OpKernel \<Rightarrow> fully_params \<Rightarrow> 't OpKernelContext \<Rightarrow> 'm \<Rightarrow> 'r) \<Rightarrow> 't store \<Rightarrow>
     OpKernel \<Rightarrow> 't OpKernelContext \<Rightarrow> 'm \<Rightarrow> 'r option" where
  "OpKernel_compute K s k c m =
     (case s (oc_params (construction k)) of
        None \<Rightarrow> None
      | Some owner \<Rightarrow> Some (K k (params owner) c m))"

text \<open>
  \<^verbatim>\<open>forward_propagation\<close> (lines 86 to 96). The four setter calls update the member
  \<^verbatim>\<open>fwd_ctx_\<close> of the object at \<open>this\<close>; then the kernel behind \<^verbatim>\<open>kernel_fwd_\<close> is
  called with that context. The result is the store after the call and the effect
  of the kernel, or \<open>None\<close> when no object lives at \<open>this\<close>, \<^verbatim>\<open>kernel_fwd_\<close> is
  null or the kernel's back-reference dangles.
\<close>

definition forward_propagation ::
  "(OpKernel \<Rightarrow> fully_params \<Rightarrow> 't OpKernelContext \<Rightarrow> 'm \<Rightarrow> 'r) \<Rightarrow> addr \<Rightarrow>
     addr list \<Rightarrow> addr list \<Rightarrow> 't store \<Rightarrow> 'm \<Rightarrow> ('t store \<times> 'r) option" where
  "forward_propagation K this in_data out_data s m =
     (case s this of
        None \<Rightarrow> None
      | Some n \<Rightarrow>
          (let c1 = set_in_out2 (fwd_ctx n) in_data out_data;
               c2 = setParallelize c1 (parallelize (base n));
               c3 = setEngine c2 (engine (base n));
               c4 = setParameters c3 (parameters (base n));
               s' = s(this \<mapsto> n\<lparr>fwd_ctx := c4\<rparr>)
           in case kernel_fwd n of
                None \<Rightarrow> None
              | Some k \<Rightarrow> map_option (Pair s') (OpKernel_compute K s' k c4 m)))"

text \<open>\<^verbatim>\<open>back_propagation\<close> (lines 98 to 110), in the same way on \<^verbatim>\<open>bwd_ctx_\<close>.\<close>

definition back_propagation ::
  "(OpKernel \<Rightarrow> fully_params \<Rightarrow> 't OpKernelContext \<Rightarrow> 'm \<Rightarrow> 'r) \<Rightarrow> addr \<Rightarrow>
     addr list \<Rightarrow> addr list \<Rightarrow> addr list \<Rightarrow> addr list \<Rightarrow> 't store \<Rightarrow> 'm \<Rightarrow>
     ('t store \<times> 'r) option" where
  "back_propagation K this in_data out_data out_grad in_grad s m =
     (case s this of
        None \<Rightarrow> None
      | Some n \<Rightarrow>
          (let c1 = set_in_out4 (bwd_ctx n) in_data out_data out_grad in_grad;
               c2 = setParallelize c1 (parallelize (base n));
               c3 = setEngine c2 (engine (base n));
               c4 = setParameters c3 (parameters (base n));
               s' = s(this \<mapsto> n\<lparr>bwd_ctx := c4\<rparr>)
           in case kernel_back n of
                None \<Rightarrow> None
              | Some k \<Rightarrow> map_option (Pair s') (OpKernel_compute K s' k c4 m)))"

subsection \<open>The forward kernel, from the specification\<close>

text \<open>
  A tensor is a list of rows, one row for each sample of the batch. The memory of
  the tensors maps the address of each allocated tensor to its contents. The
  element type \<open>'a\<close> stands for \<^verbatim>\<open>float_t\<close>; only its zero, addition and
  multiplication are used, and no law of arithmetic is assumed of them.
\<close>

type_synonym 'a tensor_t = "'a list list"

type_synonym 'a memory = "addr \<Rightarrow> 'a tensor_t option"

definition dot :: "'a::{zero,plus,times} list \<Rightarrow> 'a list \<Rightarrow> 'a" where
  "dot x w = foldl (+) 0 (map2 (*) x w)"

definition is_matrix :: "nat \<Rightarrow> nat \<Rightarrow> 'a tensor_t \<Rightarrow> bool" where
  "is_matrix r c X = (length X = r \<and> list_all (\<lambda>row. length row = c) X)"

fun single :: "'b list \<Rightarrow> 'b option" where
  "single [x] = Some x"
| "single xs = None"

definition find_parameter :: "parameter_type \<Rightarrow> 't Parameter list \<Rightarrow> 't Parameter option" where
  "find_parameter role ps = find (\<lambda>q. p_type q = role) ps"

text \<open>
  Modelled from the spec: the bias the forward kernel adds, "bias term present iff
  configured". \<open>Some None\<close> is no bias term, \<open>Some (Some bs)\<close> the row \<open>bs\<close> of the
  bias parameter ("shape: out_size"), and \<open>None\<close> a parameter list that does not
  hold such a parameter although the descriptor asks for it.
\<close>

definition bias_row ::
  "fully_params \<Rightarrow> 'a tensor_t OpKernelContext \<Rightarrow> 'a list option option" where
  "bias_row p c =
     (if has_bias p
      then do {
        B \<leftarrow> find_parameter parameter_type_bias (ctx_parameters c);
        bs \<leftarrow> single (p_tensor B);
        if length bs = unat (out_size p) then Some (Some bs) else None
      }
      else Some None)"

text \<open>
  Modelled from the spec: one row of \<open>input \<cdot> weight\<^sup>T + bias\<close>, the weight given as
  its \<open>out_size\<close> rows of length \<open>in_size\<close>.
\<close>

definition fully_connected_row ::
  "'a::{zero,plus,times} tensor_t \<Rightarrow> 'a list option \<Rightarrow> 'a list \<Rightarrow> 'a list" where
  "fully_connected_row W b x =
     (case b of
        None \<Rightarrow> map (dot x) W
      | Some bs \<Rightarrow> map2 (\<lambda>w c. dot x w + c) W bs)"

text \<open>
  Modelled from the spec: \<^verbatim>\<open>compute\<close> of the forward kernel \<^verbatim>\<open>FullyConnectedOp\<close>, whose
  source is not part of the sources. Under the preconditions of Forward (exactly
  one input tensor with rows of length \<open>in_size\<close>, exactly one allocated output
  tensor with as many rows, of length \<open>out_size\<close>, a weight parameter of
  \<open>out_size\<close> by \<open>in_size\<close> in the parameter list of the context) it overwrites
  the output tensor with \<open>input \<cdot> weight\<^sup>T + bias\<close>, row by row. The specification
  says nothing of a call outside these preconditions: the result is \<open>None\<close> there.
\<close>

definition FullyConnectedOp_compute ::
  "fully_params \<Rightarrow> 'a::{zero,plus,times} tensor_t OpKernelContext \<Rightarrow> 'a memory \<Rightarrow>
     'a memory option" where
  "FullyConnectedOp_compute p c m =
     do {
       ins \<leftarrow> ctx_in_data c;
       ia \<leftarrow> single ins;
       outs \<leftarrow> ctx_out_data c;
       oa \<leftarrow> single outs;
       X \<leftarrow> m ia;
       Y \<leftarrow> m oa;
       W \<leftarrow> find_parameter parameter_type_weight (ctx_parameters c);
       b \<leftarrow> bias_row p c;
       if is_matrix (length X) (unat (in_size p)) X \<and>
          is_matrix (length X) (unat (out_size p)) Y \<and>
          is_matrix (unat (out_size p)) (unat (in_size p)) (p_tensor W)
       then Some (m(oa \<mapsto> map (fully_connected_row (p_tensor W) b) X))
       else None
     }"

subsection \<open>Histories of calls\<close>

text \<open>
  \<open>calls K this s s'\<close>: the store \<open>s'\<close> is reached from \<open>s\<close> by any number of
  \<^verbatim>\<open>forward_propagation\<close> and \<^verbatim>\<open>back_propagation\<close> calls on the object at \<open>this\<close>,
  with any buffers and on any memory, between which the members of the base
  class of that object may change (the setters of the base class, the optimizer
  writing the parameters).
\<close>

inductive calls ::
  "(OpKernel \<Rightarrow> fully_params \<Rightarrow> 't OpKernelContext \<Rightarrow> 'm \<Rightarrow> 'r) \<Rightarrow> addr \<Rightarrow>
     't store \<Rightarrow> 't store \<Rightarrow> bool"
  for K :: "OpKernel \<Rightarrow> fully_params \<Rightarrow> 't OpKernelContext \<Rightarrow> 'm \<Rightarrow> 'r" and this :: addr
  where
    calls_none: "calls K this s s"
  | calls_forward:
      "calls K this s s1 \<Longrightarrow> forward_propagation K this ins outs s1 m = Some (s2, r) \<Longrightarrow>
       calls K this s s2"
  | calls_backward:
      "calls K this s s1 \<Longrightarrow> back_propagation K this ins outs og ig s1 m = Some (s2, r) \<Longrightarrow>
       calls K this s s2"
  | calls_base:
      "calls K this s s1 \<Longrightarrow> s1 this = Some n \<Longrightarrow> calls K this s (s1(this \<mapsto> n\<lparr>base := l\<rparr>))"

subsection \<open>Concrete collaborators\<close>

text \<open>
  One instance of the collaborators, on integer tensors, for the closed
  theorems below: a fresh layer runs in parallel on the backend \<open>internal\<close> with
  no device bound, a fresh context has nothing bound, and a parameter of extents
  \<open>(a, b, c, d)\<close> is allocated as \<open>c\<close> rows of \<open>d\<close> zeros.
\<close>

definition example_collaborators :: "int tensor_t collaborators" where
  "example_collaborators =
     \<lparr>to_string = (\<lambda>bt. case bt of internal \<Rightarrow> ''internal'' | avx \<Rightarrow> ''avx''
                          | nnpack \<Rightarrow> ''nnpack'' | other_backend k \<Rightarrow> ''other''),
      std_input_order = (\<lambda>hb. if hb then [data, other_vector_type 0, other_vector_type 1]
                               else [data, other_vector_type 0]),
      new_layer = \<lparr>layer_in_type = [], layer_out_type = [], layer_parameters = [],
                    layer_parallelize = True, layer_backend_type = internal,
                    layer_device = None\<rparr>,
      new_context = \<lparr>ctx_in_data = None, ctx_out_data = None, ctx_out_grad = None,
                      ctx_in_grad = None, ctx_parallelize = False, ctx_engine = internal,
                      ctx_parameters = []\<rparr>,
      new_fully_params = \<lparr>in_size = 0, out_size = 0, has_bias = False\<rparr>,
      new_tensor = (\<lambda>(a, b, c, d). replicate (unat c) (replicate (unat d) 0))\<rparr>"

text \<open>
  A kernel semantics that does no arithmetic and yields the context it is called
  with, to observe what a kernel receives.
\<close>

definition observe_context ::
  "OpKernel \<Rightarrow> fully_params \<Rightarrow> 't OpKernelContext \<Rightarrow> unit \<Rightarrow> 't OpKernelContext" where
  "observe_context k p c m = c"

text \<open>
  The layer constructed at address 7 with \<open>in_size = 3\<close>, \<open>out_size = 2\<close> and a
  bias on the backend \<open>internal\<close>, the store that holds this layer only, and the
  layer as one Forward call on the buffers at 11 and 12 leaves it.
\<close>

definition example_layer :: "int tensor_t fully_connected_layer" where
  "example_layer =
     (case fully_connected_layer_new example_collaborators 7 3 2 True internal of
        Inr n \<Rightarrow> n
      | Inl (e, n) \<Rightarrow> n)"

definition example_store :: "int tensor_t store" where
  "example_store = Map.empty(7 \<mapsto> example_layer)"

definition example_bound_layer :: "int tensor_t fully_connected_layer" where
  "example_bound_layer =
     (case forward_propagation observe_context 7 [11] [12] example_store () of
        Some (s, r) \<Rightarrow> (case s 7 of Some n \<Rightarrow> n | None \<Rightarrow> example_layer)
      | None \<Rightarrow> example_layer)"

text \<open>
  A kernel semantics whose forward kernel is the one modelled from the
  specification; it gives no meaning to the backward kernel, of which nothing
  is evaluated below.
\<close>

definition forward_only_compute ::
  "OpKernel \<Rightarrow> fully_params \<Rightarrow> 'a::{zero,plus,times} tensor_t OpKernelContext \<Rightarrow>
     'a memory \<Rightarrow> 'a memory option" where
  "forward_only_compute k =
     (case k of
        FullyConnectedOp oc \<Rightarrow> FullyConnectedOp_compute
      | FullyConnectedGradOp oc \<Rightarrow> (\<lambda>p c m. None))"

text \<open>
  The example layer after the optimizer has written its parameters, and a
  memory with an input tensor of two samples at 11 and an allocated output
  tensor at 12.
\<close>

definition example_trained_layer :: "int tensor_t fully_connected_layer" where
  "example_trained_layer =
     example_layer\<lparr>base := (base example_layer)\<lparr>layer_parameters :=
       [\<lparr>p_shape = (1, 1, 2, 3), p_type = parameter_type_weight, p_trainable = True,
          p_tensor = [[1, 2, 3], [4, 5, 6]]\<rparr>,
        \<lparr>p_shape = (1, 1, 1, 2), p_type = parameter_type_bias, p_trainable = True,
          p_tensor = [[10, 20]]\<rparr>]\<rparr>\<rparr>"

definition example_memory :: "int memory" where
  "example_memory = Map.empty(11 \<mapsto> [[1, 0, 2], [0, 1, 0]], 12 \<mapsto> [[0, 0], [0, 0]])"

text \<open>
  The layer constructed at address 7 by the constructor that takes the
  configuration record, from \<open>in_size = 3\<close>, \<open>out_size = 2\<close> and the record
  \<open>{parallellze = false, backend_type = internal, bias = true}\<close>.
\<close>

definition example_overload_layer :: "int tensor_t fully_connected_layer" where
  "example_overload_layer =
     (case fully_connected_layer_of_params example_collaborators 7 3 2
             \<lparr>parallellze = False, backend_type = internal, bias = True\<rparr> of
        Inr n \<Rightarrow> n
      | Inl (e, n) \<Rightarrow> n)"

section \<open>Properties\<close>

subsection \<open>What the constructors return\<close>

lemma init_backend_eq:
  "init_backend env this n bt =
     (if bt \<in> supported_backends
      then Inr (n\<lparr>kernel_fwd :=
                    Some (FullyConnectedOp \<lparr>oc_device = device (base n), oc_params = this\<rparr>),
                  kernel_back :=
                    Some (FullyConnectedGradOp \<lparr>oc_device = device (base n), oc_params = this\<rparr>)\<rparr>)
      else Inl (nn_error (''Not supported engine: '' @ to_string env bt)))"
  by (simp add: init_backend_def supported_backends_def Let_def)

lemma new_supported:
  assumes "bt \<in> supported_backends"
  shows "fully_connected_layer_new env this i out b bt =
     Inr \<lparr>base = (new_layer env)\<lparr>layer_in_type := [data], layer_out_type := [data],
             layer_parameters :=
               \<lparr>p_shape = (1, 1, out, i), p_type = parameter_type_weight, p_trainable = True,
                 p_tensor = new_tensor env (1, 1, out, i)\<rparr> #
               (if b then [\<lparr>p_shape = (1, 1, 1, out), p_type = parameter_type_bias,
                             p_trainable = True, p_tensor = new_tensor env (1, 1, 1, out)\<rparr>]
                else []),
             layer_backend_type := bt\<rparr>,
           params = (new_fully_params env)\<lparr>in_size := i, out_size := out, has_bias := b\<rparr>,
           fwd_ctx = new_context env, bwd_ctx = new_context env,
           kernel_fwd = Some (FullyConnectedOp
             \<lparr>oc_device = layer_device (new_layer env), oc_params = this\<rparr>),
           kernel_back = Some (FullyConnectedGradOp
             \<lparr>oc_device = layer_device (new_layer env), oc_params = this\<rparr>)\<rparr>"
  using assms
  by (simp add: fully_connected_layer_new_def init_backend_eq default_members_def layer_ctor_def
      add_parameter_def set_params_def set_backend_type_def device_def Let_def)

lemma new_unsupported:
  assumes "bt \<notin> supported_backends"
  shows "fully_connected_layer_new env this i out b bt =
     Inl (nn_error (''Not supported engine: '' @ to_string env bt),
          \<lparr>base = (new_layer env)\<lparr>layer_in_type := [data], layer_out_type := [data],
             layer_parameters :=
               \<lparr>p_shape = (1, 1, out, i), p_type = parameter_type_weight, p_trainable = True,
                 p_tensor = new_tensor env (1, 1, out, i)\<rparr> #
               (if b then [\<lparr>p_shape = (1, 1, 1, out), p_type = parameter_type_bias,
                             p_trainable = True, p_tensor = new_tensor env (1, 1, 1, out)\<rparr>]
                else [])\<rparr>,
           params = (new_fully_params env)\<lparr>in_size := i, out_size := out, has_bias := b\<rparr>,
           fwd_ctx = new_context env, bwd_ctx = new_context env,
           kernel_fwd = None, kernel_back = None\<rparr>)"
  using assms
  by (simp add: fully_connected_layer_new_def init_backend_eq default_members_def layer_ctor_def
      add_parameter_def set_params_def set_backend_type_def device_def Let_def)

lemma of_params_supported:
  assumes "backend_type ps \<in> supported_backends"
  shows "fully_connected_layer_of_params env this i out ps =
     Inr \<lparr>base = (new_layer env)\<lparr>layer_in_type := std_input_order env (bias ps),
             layer_out_type := [data], layer_parameters := [],
             layer_backend_type := backend_type ps\<rparr>,
           params = (new_fully_params env)\<lparr>in_size := i, out_size := out, has_bias := bias ps\<rparr>,
           fwd_ctx = new_context env, bwd_ctx = new_context env,
           kernel_fwd = Some (FullyConnectedOp
             \<lparr>oc_device = layer_device (new_layer env), oc_params = this\<rparr>),
           kernel_back = Some (FullyConnectedGradOp
             \<lparr>oc_device = layer_device (new_layer env), oc_params = this\<rparr>)\<rparr>"
  using assms
  by (simp add: fully_connected_layer_of_params_def init_backend_eq default_members_def
      layer_ctor_def set_params_def set_backend_type_def device_def Let_def)

lemma of_params_unsupported:
  assumes "backend_type ps \<notin> supported_backends"
  shows "fully_connected_layer_of_params env this i out ps =
     Inl (nn_error (''Not supported engine: '' @ to_string env (backend_type ps)),
          \<lparr>base = (new_layer env)\<lparr>layer_in_type := std_input_order env (bias ps),
             layer_out_type := [data], layer_parameters := []\<rparr>,
           params = (new_fully_params env)\<lparr>in_size := i, out_size := out, has_bias := bias ps\<rparr>,
           fwd_ctx = new_context env, bwd_ctx = new_context env,
           kernel_fwd = None, kernel_back = None\<rparr>)"
  using assms
  by (simp add: fully_connected_layer_of_params_def init_backend_eq default_members_def
      layer_ctor_def set_params_def set_backend_type_def device_def Let_def)

lemma move_supported:
  assumes "engine (base other) \<in> supported_backends"
  shows "fully_connected_layer_move env this other =
     Inr (\<lparr>base = base other, params = params other,
           fwd_ctx = new_context env, bwd_ctx = new_context env,
           kernel_fwd = Some (FullyConnectedOp
             \<lparr>oc_device = device (base other), oc_params = this\<rparr>),
           kernel_back = Some (FullyConnectedGradOp
             \<lparr>oc_device = device (base other), oc_params = this\<rparr>)\<rparr>,
          other\<lparr>base := (base other)\<lparr>layer_parameters := []\<rparr>,
                kernel_fwd := None, kernel_back := None\<rparr>)"
  using assms
  by (simp add: fully_connected_layer_move_def layer_move_def init_backend_eq engine_def
      device_def Let_def)

subsection \<open>What a propagation call does\<close>

lemma context_after_forward:
  "(c::'t OpKernelContext)\<lparr>ctx_in_data := a, ctx_out_data := b, ctx_parallelize := p,
       ctx_engine := e, ctx_parameters := ps\<rparr> =
     \<lparr>ctx_in_data = a, ctx_out_data = b, ctx_out_grad = ctx_out_grad c,
      ctx_in_grad = ctx_in_grad c, ctx_parallelize = p, ctx_engine = e, ctx_parameters = ps\<rparr>"
  by (cases c) simp

lemma context_after_backward:
  "(c::'t OpKernelContext)\<lparr>ctx_in_data := a, ctx_out_data := b, ctx_out_grad := og,
       ctx_in_grad := ig, ctx_parallelize := p, ctx_engine := e, ctx_parameters := ps\<rparr> =
     \<lparr>ctx_in_data = a, ctx_out_data = b, ctx_out_grad = og,
      ctx_in_grad = ig, ctx_parallelize = p, ctx_engine = e, ctx_parameters = ps\<rparr>"
  by (cases c) simp

lemma forward_propagation_eq:
  assumes "s this = Some n" and "kernel_fwd n = Some k"
    and "oc_params (construction k) = this"
  shows "forward_propagation K this ins outs s m =
     Some (s(this \<mapsto> n\<lparr>fwd_ctx :=
               \<lparr>ctx_in_data = Some ins, ctx_out_data = Some outs,
                ctx_out_grad = ctx_out_grad (fwd_ctx n), ctx_in_grad = ctx_in_grad (fwd_ctx n),
                ctx_parallelize = parallelize (base n), ctx_engine = engine (base n),
                ctx_parameters = parameters (base n)\<rparr>\<rparr>),
           K k (params n)
             \<lparr>ctx_in_data = Some ins, ctx_out_data = Some outs,
              ctx_out_grad = ctx_out_grad (fwd_ctx n), ctx_in_grad = ctx_in_grad (fwd_ctx n),
              ctx_parallelize = parallelize (base n), ctx_engine = engine (base n),
              ctx_parameters = parameters (base n)\<rparr> m)"
  using assms
  by (simp add: forward_propagation_def OpKernel_compute_def set_in_out2_def setParallelize_def
      setEngine_def setParameters_def Let_def context_after_forward)

lemma back_propagation_eq:
  assumes "s this = Some n" and "kernel_back n = Some k"
    and "oc_params (construction k) = this"
  shows "back_propagation K this ins outs og ig s m =
     Some (s(this \<mapsto> n\<lparr>bwd_ctx :=
               \<lparr>ctx_in_data = Some ins, ctx_out_data = Some outs,
                ctx_out_grad = Some og, ctx_in_grad = Some ig,
                ctx_parallelize = parallelize (base n), ctx_engine = engine (base n),
                ctx_parameters = parameters (base n)\<rparr>\<rparr>),
           K k (params n)
             \<lparr>ctx_in_data = Some ins, ctx_out_data = Some outs,
              ctx_out_grad = Some og, ctx_in_grad = Some ig,
              ctx_parallelize = parallelize (base n), ctx_engine = engine (base n),
              ctx_parameters = parameters (base n)\<rparr> m)"
  using assms
  by (simp add: back_propagation_def OpKernel_compute_def set_in_out4_def setParallelize_def
      setEngine_def setParameters_def Let_def context_after_backward)

lemma forward_propagation_store:
  assumes "forward_propagation K this ins outs s m = Some (s', r)"
  shows "\<exists>n c. s this = Some n \<and> s' = s(this \<mapsto> n\<lparr>fwd_ctx := c\<rparr>) \<and>
           ctx_out_grad c = ctx_out_grad (fwd_ctx n) \<and> ctx_in_grad c = ctx_in_grad (fwd_ctx n)"
  using assms
  by (auto simp add: forward_propagation_def set_in_out2_def setParallelize_def
      setEngine_def setParameters_def Let_def split: option.splits)

lemma back_propagation_store:
  assumes "back_propagation K this ins outs og ig s m = Some (s', r)"
  shows "\<exists>n c. s this = Some n \<and> s' = s(this \<mapsto> n\<lparr>bwd_ctx := c\<rparr>)"
  using assms
  by (auto simp add: back_propagation_def Let_def split: option.splits)

text \<open>
  A kernel whose back-reference points to an address where no layer lives cannot
  be called.
\<close>

lemma forward_propagation_dangling:
  assumes "s this = Some n" and "kernel_fwd n = Some k"
    and "oc_params (construction k) \<noteq> this" and "s (oc_params (construction k)) = None"
  shows "forward_propagation K this ins outs s m = None"
  using assms by (simp add: forward_propagation_def OpKernel_compute_def Let_def)

lemma calls_invariant:
  assumes "calls K this s0 s" and "s0 this = Some n0"
  shows "\<exists>n. s this = Some n \<and> params n = params n0 \<and>
           kernel_fwd n = kernel_fwd n0 \<and> kernel_back n = kernel_back n0 \<and>
           ctx_out_grad (fwd_ctx n) = ctx_out_grad (fwd_ctx n0) \<and>
           ctx_in_grad (fwd_ctx n) = ctx_in_grad (fwd_ctx n0) \<and>
           (\<forall>a. a \<noteq> this \<longrightarrow> s a = s0 a)"
  using assms
proof (induction rule: calls.induct)
  case (calls_none s)
  then show ?case by simp
next
  case (calls_forward s s1 ins outs m s2 r)
  from calls_forward.IH [OF calls_forward.prems] forward_propagation_store [OF calls_forward.hyps(2)]
  show ?case by auto
next
  case (calls_backward s s1 ins outs og ig m s2 r)
  from calls_backward.IH [OF calls_backward.prems] back_propagation_store [OF calls_backward.hyps(2)]
  show ?case by auto
next
  case (calls_base s s1 n l)
  from calls_base.IH [OF calls_base.prems] calls_base.hyps(2)
  show ?case by auto
qed

lemma calls_params:
  assumes "calls K this s s'" and "s this = Some n"
  shows "\<exists>n'. s' this = Some n' \<and> params n' = params n"
  using calls_invariant [OF assms] by blast

subsection \<open>Evaluating the concrete collaborators\<close>

lemma to_string_example [simp]:
  "to_string example_collaborators (other_backend k) = ''other''"
  by (simp add: example_collaborators_def)

lemma new_tensor_example:
  "new_tensor example_collaborators (a, b, c, d) = replicate (unat c) (replicate (unat d) 0)"
  by (simp add: example_collaborators_def)

lemma replicate_small:
  "replicate 1 x = [x]" "replicate 2 x = [x, x]" "replicate 3 x = [x, x, x]"
  by (simp_all add: numeral_2_eq_2 numeral_3_eq_3)

lemma example_tensors:
  "new_tensor example_collaborators (1, 1, 2, 3) = [[0, 0, 0], [0, 0, 0]]"
  "new_tensor example_collaborators (1, 1, 1, 2) = [[0, 0]]"
  by (simp_all add: new_tensor_example replicate_small)

lemma internal_supported: "internal \<in> supported_backends"
  by (simp add: supported_backends_def)

lemma example_new:
  "fully_connected_layer_new example_collaborators 7 3 2 True internal = Inr example_layer"
  by (simp add: example_layer_def new_supported [OF internal_supported])

lemma example_layer_eq:
  "example_layer =
     \<lparr>base = \<lparr>layer_in_type = [data], layer_out_type = [data],
              layer_parameters =
                [\<lparr>p_shape = (1, 1, 2, 3), p_type = parameter_type_weight, p_trainable = True,
                   p_tensor = [[0, 0, 0], [0, 0, 0]]\<rparr>,
                 \<lparr>p_shape = (1, 1, 1, 2), p_type = parameter_type_bias, p_trainable = True,
                   p_tensor = [[0, 0]]\<rparr>],
              layer_parallelize = True, layer_backend_type = internal, layer_device = None\<rparr>,
      params = \<lparr>in_size = 3, out_size = 2, has_bias = True\<rparr>,
      fwd_ctx = new_context example_collaborators, bwd_ctx = new_context example_collaborators,
      kernel_fwd = Some (FullyConnectedOp \<lparr>oc_device = None, oc_params = 7\<rparr>),
      kernel_back = Some (FullyConnectedGradOp \<lparr>oc_device = None, oc_params = 7\<rparr>)\<rparr>"
  by (simp add: example_layer_def new_supported [OF internal_supported] example_tensors)
    (simp add: example_collaborators_def)

lemma new_context_example:
  "new_context example_collaborators =
     \<lparr>ctx_in_data = None, ctx_out_data = None, ctx_out_grad = None,
      ctx_in_grad = None, ctx_parallelize = False, ctx_engine = internal,
      ctx_parameters = []\<rparr>"
  by (simp add: example_collaborators_def)

lemma example_layer_fields:
  "kernel_fwd example_layer = Some (FullyConnectedOp \<lparr>oc_device = None, oc_params = 7\<rparr>)"
  "kernel_back example_layer = Some (FullyConnectedGradOp \<lparr>oc_device = None, oc_params = 7\<rparr>)"
  "params example_layer = \<lparr>in_size = 3, out_size = 2, has_bias = True\<rparr>"
  "fwd_ctx example_layer = new_context example_collaborators"
  "bwd_ctx example_layer = new_context example_collaborators"
  "parallelize (base example_layer) = True"
  "engine (base example_layer) = internal"
  "parameters (base example_layer) =
     [\<lparr>p_shape = (1, 1, 2, 3), p_type = parameter_type_weight, p_trainable = True,
        p_tensor = [[0, 0, 0], [0, 0, 0]]\<rparr>,
      \<lparr>p_shape = (1, 1, 1, 2), p_type = parameter_type_bias, p_trainable = True,
        p_tensor = [[0, 0]]\<rparr>]"
  by (simp_all add: example_layer_eq parallelize_def engine_def parameters_def)

lemma example_store_at: "example_store 7 = Some example_layer"
  by (simp add: example_store_def)

lemma example_forward:
  "forward_propagation K 7 [11] [12] example_store m =
     Some (example_store(7 \<mapsto> example_layer\<lparr>fwd_ctx :=
               \<lparr>ctx_in_data = Some [11], ctx_out_data = Some [12], ctx_out_grad = None,
                ctx_in_grad = None, ctx_parallelize = True, ctx_engine = internal,
                ctx_parameters = parameters (base example_layer)\<rparr>\<rparr>),
           K (FullyConnectedOp \<lparr>oc_device = None, oc_params = 7\<rparr>)
             \<lparr>in_size = 3, out_size = 2, has_bias = True\<rparr>
             \<lparr>ctx_in_data = Some [11], ctx_out_data = Some [12], ctx_out_grad = None,
              ctx_in_grad = None, ctx_parallelize = True, ctx_engine = internal,
              ctx_parameters = parameters (base example_layer)\<rparr> m)"
  using forward_propagation_eq [where s = example_store and this = 7 and K = K,
      OF example_store_at example_layer_fields(1), of "[11]" "[12]" m]
  by (simp add: example_layer_fields new_context_example)

lemma example_bound_layer_eq:
  "example_bound_layer = example_layer\<lparr>fwd_ctx :=
     \<lparr>ctx_in_data = Some [11], ctx_out_data = Some [12], ctx_out_grad = None,
      ctx_in_grad = None, ctx_parallelize = True, ctx_engine = internal,
      ctx_parameters = parameters (base example_layer)\<rparr>\<rparr>"
  by (simp add: example_bound_layer_def example_forward)

lemma example_history:
  "calls observe_context 7 example_store (example_store(7 \<mapsto> example_bound_layer))"
proof -
  have "forward_propagation observe_context 7 [11] [12] example_store () =
      Some (example_store(7 \<mapsto> example_bound_layer), fwd_ctx example_bound_layer)"
    by (simp add: example_forward observe_context_def example_bound_layer_eq)
  from calls_forward [OF calls_none this] show ?thesis .
qed

lemma example_trained_layer_fields:
  "kernel_fwd example_trained_layer = Some (FullyConnectedOp \<lparr>oc_device = None, oc_params = 7\<rparr>)"
  "params example_trained_layer = \<lparr>in_size = 3, out_size = 2, has_bias = True\<rparr>"
  "parameters (base example_trained_layer) =
     [\<lparr>p_shape = (1, 1, 2, 3), p_type = parameter_type_weight, p_trainable = True,
        p_tensor = [[1, 2, 3], [4, 5, 6]]\<rparr>,
      \<lparr>p_shape = (1, 1, 1, 2), p_type = parameter_type_bias, p_trainable = True,
        p_tensor = [[10, 20]]\<rparr>]"
  by (simp_all add: example_trained_layer_def example_layer_fields parameters_def)

lemma example_overload_new:
  "fully_connected_layer_of_params example_collaborators 7 3 2
     \<lparr>parallellze = False, backend_type = internal, bias = True\<rparr> = Inr example_overload_layer"
  by (simp add: example_overload_layer_def of_params_supported internal_supported)

lemma example_overload_layer_fields:
  "kernel_fwd example_overload_layer = Some (FullyConnectedOp \<lparr>oc_device = None, oc_params = 7\<rparr>)"
  "params example_overload_layer = \<lparr>in_size = 3, out_size = 2, has_bias = True\<rparr>"
  "parameters (base example_overload_layer) = []"
  "parallelize (base example_overload_layer) = True"
  "engine (base example_overload_layer) = internal"
  "fwd_ctx example_overload_layer = new_context example_collaborators"
  by (simp_all add: example_overload_layer_def of_params_supported internal_supported
      parameters_def parallelize_def engine_def example_collaborators_def)

subsection \<open>Construction\<close>

text \<open>
  Claim C4. A layer constructed by the constructor of lines 36 to 49 from
  \<open>in_size\<close>, \<open>out_size\<close> and \<open>bias\<close> (on a supported backend, without which no
  layer is constructed) answers \<^verbatim>\<open>fan_in_size() = in_size\<close>,
  \<^verbatim>\<open>fan_out_size() = out_size\<close>, \<^verbatim>\<open>in_shape() = [(in_size, 1, 1)]\<close>,
  \<^verbatim>\<open>out_shape() = [(out_size, 1, 1)]\<close>, and has two registered parameters when
  \<open>bias\<close> is true and one otherwise. This holds for all sizes, the positive ones
  of the claim among them.
\<close>

theorem constructed_node_accessors:
  assumes "bt \<in> supported_backends"
  shows "\<exists>n. fully_connected_layer_new env this i out b bt = Inr n \<and>
     fan_in_size n = i \<and> fan_out_size n = out \<and>
     in_shape n = [shape3d i 1 1] \<and> out_shape n = [shape3d out 1 1] \<and>
     length (parameters (base n)) = (if b then 2 else 1)"
  by (simp add: new_supported [OF assms] fan_in_size_def fan_out_size_def in_shape_def
      out_shape_def parameters_def)

theorem constructed_node_accessors_witness:
  "\<exists>n. fully_connected_layer_new example_collaborators 7 3 2 True avx = Inr n \<and>
     fan_in_size n = 3 \<and> fan_out_size n = 2 \<and>
     in_shape n = [shape3d 3 1 1] \<and> out_shape n = [shape3d 2 1 1] \<and>
     length (parameters (base n)) = 2"
proof -
  have "avx \<in> supported_backends"
    by (simp add: supported_backends_def)
  from constructed_node_accessors [OF this, of example_collaborators 7 3 2 True]
  show ?thesis by simp
qed

text \<open>
  What the constructor of lines 36 to 49 registers: the weight parameter with
  the extents \<open>(1, 1, out_size, in_size)\<close>, that is \<open>out_size \<times> in_size\<close>,
  followed, exactly when \<open>has_bias\<close> is true, by the bias parameter with the
  extents \<open>(1, 1, 1, out_size)\<close>; both are trainable. So a layer built by this
  constructor has two parameters iff \<open>has_bias\<close> is true and one iff it is
  false.
\<close>

lemma constructed_node_parameters:
  assumes "bt \<in> supported_backends"
  shows "\<exists>n. fully_connected_layer_new env this i out b bt = Inr n \<and>
     has_bias (params n) = b \<and>
     parameters (base n) =
       \<lparr>p_shape = (1, 1, out, i), p_type = parameter_type_weight, p_trainable = True,
         p_tensor = new_tensor env (1, 1, out, i)\<rparr> #
       (if has_bias (params n)
        then [\<lparr>p_shape = (1, 1, 1, out), p_type = parameter_type_bias, p_trainable = True,
                p_tensor = new_tensor env (1, 1, 1, out)\<rparr>]
        else []) \<and>
     (length (parameters (base n)) = 2) = has_bias (params n) \<and>
     (length (parameters (base n)) = 1) = (\<not> has_bias (params n))"
  by (simp add: new_supported [OF assms] parameters_def)

lemma constructed_node_parameters_example:
  "\<exists>n. fully_connected_layer_new example_collaborators 7 3 2 True internal = Inr n \<and>
     parameters (base n) =
       [\<lparr>p_shape = (1, 1, 2, 3), p_type = parameter_type_weight, p_trainable = True,
          p_tensor = [[0, 0, 0], [0, 0, 0]]\<rparr>,
        \<lparr>p_shape = (1, 1, 1, 2), p_type = parameter_type_bias, p_trainable = True,
          p_tensor = [[0, 0]]\<rparr>]"
proof -
  have "internal \<in> supported_backends"
    by (simp add: supported_backends_def)
  from constructed_node_parameters [OF this, of example_collaborators 7 3 2 True]
  show ?thesis by (auto simp add: example_tensors)
qed

text \<open>
  Claim C5 says this of every successful construction. The code differs for the
  constructor of lines 56 to 63, which never calls \<^verbatim>\<open>add_parameter\<close>: from
  \<open>in_size = 3\<close>, \<open>out_size = 2\<close> and the record
  \<open>{parallellze = false, backend_type = internal, bias = true}\<close> it constructs a
  layer whose descriptor has \<open>has_bias\<close> true and which has no parameter at
  all, neither the weight nor the bias.
\<close>

theorem overload_layer_has_no_parameters:
  "fully_connected_layer_of_params example_collaborators 7 3 2
     \<lparr>parallellze = False, backend_type = internal, bias = True\<rparr> = Inr example_overload_layer \<and>
   has_bias (params example_overload_layer) \<and>
   parameters (base example_overload_layer) = [] \<and>
   length (parameters (base example_overload_layer)) \<noteq> 2 \<and>
   find_parameter parameter_type_weight (parameters (base example_overload_layer)) = None \<and>
   find_parameter parameter_type_bias (parameters (base example_overload_layer)) = None"
  by (simp add: example_overload_new example_overload_layer_fields find_parameter_def)

subsection \<open>Construction on an unsupported backend\<close>

text \<open>
  Claim C2, as amended. For every backend outside the supported set both
  constructors fail with an \<^verbatim>\<open>nn_error\<close> whose message ends with the printed
  backend, and the caller gets no layer object. The constructor that takes the
  configuration record has registered no parameter when it fails. The
  constructor of lines 36 to 49 calls \<^verbatim>\<open>add_parameter\<close> before \<^verbatim>\<open>init_backend\<close>: when
  it fails, the weight parameter (and the bias parameter, if enabled) has been
  allocated in the object that is then destroyed.
\<close>

theorem unsupported_backend_rejected:
  assumes "bt \<notin> supported_backends"
  shows "(\<exists>n. fully_connected_layer_new env this i out b bt =
            Inl (nn_error (''Not supported engine: '' @ to_string env bt), n) \<and>
            length (parameters (base n)) = (if b then 2 else 1)) \<and>
         (\<exists>n. fully_connected_layer_of_params env this i out (ps\<lparr>backend_type := bt\<rparr>) =
            Inl (nn_error (''Not supported engine: '' @ to_string env bt), n) \<and>
            parameters (base n) = [])"
  using assms
  by (simp add: new_unsupported of_params_unsupported parameters_def)

theorem unsupported_backend_rejected_witness:
  "(\<exists>n. fully_connected_layer_new example_collaborators 7 3 2 False (other_backend 5) =
            Inl (nn_error ''Not supported engine: other'', n) \<and>
            length (parameters (base n)) = 1) \<and>
   (\<exists>n. fully_connected_layer_of_params example_collaborators 7 3 2
            \<lparr>parallellze = True, backend_type = other_backend 5, bias = True\<rparr> =
            Inl (nn_error ''Not supported engine: other'', n) \<and>
            parameters (base n) = [])"
proof -
  have "other_backend 5 \<notin> supported_backends"
    by (simp add: supported_backends_def)
  from unsupported_backend_rejected [OF this, of example_collaborators 7 3 2 False
      "\<lparr>parallellze = True, backend_type = internal, bias = True\<rparr>"]
  show ?thesis by simp
qed

text \<open>
  The claim C2 as stated says that the failed construction allocates no
  parameter. At \<open>in_size = 3\<close>, \<open>out_size = 2\<close>, \<open>bias = true\<close> and an unsupported
  backend the constructor of lines 36 to 49 fails after it has allocated two.
\<close>

theorem failed_construction_counterexample:
  "isl (fully_connected_layer_new example_collaborators 7 3 2 True (other_backend 0)) \<and>
   fst (projl (fully_connected_layer_new example_collaborators 7 3 2 True (other_backend 0))) =
     nn_error ''Not supported engine: other'' \<and>
   length (parameters (base (snd (projl
     (fully_connected_layer_new example_collaborators 7 3 2 True (other_backend 0)))))) = 2"
  by (simp add: new_unsupported supported_backends_def parameters_def)

subsection \<open>The constructor that takes the configuration record\<close>

text \<open>
  Claim C3 says that the constructor of lines 56 to 63 behaves as the one of
  lines 36 to 49 does on the corresponding arguments, and keeps the record's
  \<^verbatim>\<open>parallellze\<close>. The code differs: at \<open>in_size = 3\<close>, \<open>out_size = 2\<close> and the
  record \<open>{parallellze = false, backend_type = internal, bias = true}\<close> both
  constructors succeed with the same descriptor and the same kernels, but the
  one taking the record never calls \<^verbatim>\<open>add_parameter\<close>, so its layer has no
  parameter where the other has two, and it never reads \<^verbatim>\<open>parallellze\<close>, so the
  parallelism flag stays at the default of the base class.
\<close>

theorem overload_registers_no_parameter:
  "\<not> isl (fully_connected_layer_of_params example_collaborators 7 3 2
            \<lparr>parallellze = False, backend_type = internal, bias = True\<rparr>) \<and>
   \<not> isl (fully_connected_layer_new example_collaborators 7 3 2 True internal) \<and>
   parameters (base (projr (fully_connected_layer_of_params example_collaborators 7 3 2
            \<lparr>parallellze = False, backend_type = internal, bias = True\<rparr>))) = [] \<and>
   length (parameters (base (projr
     (fully_connected_layer_new example_collaborators 7 3 2 True internal)))) = 2 \<and>
   parallelize (base (projr (fully_connected_layer_of_params example_collaborators 7 3 2
            \<lparr>parallellze = False, backend_type = internal, bias = True\<rparr>))) = True \<and>
   params (projr (fully_connected_layer_of_params example_collaborators 7 3 2
            \<lparr>parallellze = False, backend_type = internal, bias = True\<rparr>)) =
     params (projr (fully_connected_layer_new example_collaborators 7 3 2 True internal)) \<and>
   kernel_fwd (projr (fully_connected_layer_of_params example_collaborators 7 3 2
            \<lparr>parallellze = False, backend_type = internal, bias = True\<rparr>)) =
     kernel_fwd (projr (fully_connected_layer_new example_collaborators 7 3 2 True internal)) \<and>
   kernel_back (projr (fully_connected_layer_of_params example_collaborators 7 3 2
            \<lparr>parallellze = False, backend_type = internal, bias = True\<rparr>)) =
     kernel_back (projr (fully_connected_layer_new example_collaborators 7 3 2 True internal))"
  by (simp add: new_supported of_params_supported supported_backends_def parameters_def
      parallelize_def example_collaborators_def)

text \<open>
  The same for all arguments: on a supported backend the layer built from the
  configuration record is the layer built by the constructor of lines 36 to 49
  from the record's \<^verbatim>\<open>bias\<close> and \<^verbatim>\<open>backend_type\<close>, except that its base sub-object
  has the channel kinds \<^verbatim>\<open>std_input_order(bias)\<close> and no parameter. The field
  \<^verbatim>\<open>parallellze\<close> of the record does not occur in the result.
\<close>

lemma of_params_differs_from_new:
  assumes "backend_type ps \<in> supported_backends"
  shows "\<exists>n n'. fully_connected_layer_of_params env this i out ps = Inr n \<and>
     fully_connected_layer_new env this i out (bias ps) (backend_type ps) = Inr n' \<and>
     n = n'\<lparr>base := (base n')\<lparr>layer_in_type := std_input_order env (bias ps),
                              layer_parameters := []\<rparr>\<rparr> \<and>
     parameters (base n') \<noteq> [] \<and>
     fully_connected_layer_of_params env this i out (ps\<lparr>parallellze := q\<rparr>) = Inr n"
  using assms
  by (simp add: new_supported of_params_supported parameters_def)

subsection \<open>Kernel selection\<close>

text \<open>
  Claim C6. Kernel selection is a function of the backend choice alone: for each
  of the three supported backends \<^verbatim>\<open>init_backend\<close> sets the same pair of kernels (a
  \<^verbatim>\<open>FullyConnectedOp\<close> and a \<^verbatim>\<open>FullyConnectedGradOp\<close>, both constructed from the device
  binding and a reference to the descriptor of this object) and changes nothing
  else of the object; for every other backend it throws, and so do both
  constructors: they fail exactly for the backends outside the supported set.
\<close>

theorem kernel_selection:
  "init_backend env this n bt =
     (if bt \<in> supported_backends
      then Inr (n\<lparr>kernel_fwd :=
                    Some (FullyConnectedOp \<lparr>oc_device = device (base n), oc_params = this\<rparr>),
                  kernel_back :=
                    Some (FullyConnectedGradOp \<lparr>oc_device = device (base n), oc_params = this\<rparr>)\<rparr>)
      else Inl (nn_error (''Not supported engine: '' @ to_string env bt))) \<and>
   (bt \<in> supported_backends \<and> bt' \<in> supported_backends \<longrightarrow>
      init_backend env this n bt' = init_backend env this n bt) \<and>
   isl (fully_connected_layer_new env this i out b bt) = (bt \<notin> supported_backends) \<and>
   isl (fully_connected_layer_of_params env this i out ps) =
     (backend_type ps \<notin> supported_backends)"
proof -
  have new: "isl (fully_connected_layer_new env this i out b bt) = (bt \<notin> supported_backends)"
    by (cases "bt \<in> supported_backends") (simp_all add: new_supported new_unsupported)
  have ofp: "isl (fully_connected_layer_of_params env this i out ps) =
      (backend_type ps \<notin> supported_backends)"
    by (cases "backend_type ps \<in> supported_backends")
      (simp_all add: of_params_supported of_params_unsupported)
  show ?thesis
    using new ofp by (simp add: init_backend_eq)
qed

theorem kernel_selection_witness:
  "init_backend example_collaborators 7
     (default_members example_collaborators (layer_ctor example_collaborators [data] [data])) avx =
   init_backend example_collaborators 7
     (default_members example_collaborators (layer_ctor example_collaborators [data] [data])) nnpack \<and>
   \<not> isl (init_backend example_collaborators 7
     (default_members example_collaborators (layer_ctor example_collaborators [data] [data])) nnpack) \<and>
   init_backend example_collaborators 7
     (default_members example_collaborators (layer_ctor example_collaborators [data] [data]))
     (other_backend 3) = Inl (nn_error ''Not supported engine: other'')"
proof -
  let ?n = "default_members example_collaborators (layer_ctor example_collaborators [data] [data])"
  have s: "avx \<in> supported_backends" "nnpack \<in> supported_backends"
    "other_backend 3 \<notin> supported_backends"
    by (simp_all add: supported_backends_def)
  have "init_backend example_collaborators 7 ?n avx = init_backend example_collaborators 7 ?n nnpack"
    using kernel_selection [of example_collaborators 7 ?n nnpack avx] s by blast
  moreover have "\<not> isl (init_backend example_collaborators 7 ?n nnpack)"
    using kernel_selection [of example_collaborators 7 ?n nnpack nnpack] s by simp
  moreover have "init_backend example_collaborators 7 ?n (other_backend 3) =
      Inl (nn_error ''Not supported engine: other'')"
    using kernel_selection [of example_collaborators 7 ?n "other_backend 3" avx] s by simp
  ultimately show ?thesis by blast
qed

subsection \<open>The descriptor\<close>

text \<open>
  Claim C9, as amended. Construction writes the three fields of the descriptor
  from its arguments, whatever their values, and checks no positivity: the sizes
  are positive exactly when the arguments are. After construction the fields are
  immutable: any history of Forward and Backward calls leaves them as they are,
  and a move construction carries them to the new object and leaves them in the
  old one. (The accessors are functions of the object and change nothing;
  \<^verbatim>\<open>set_params\<close> is protected.)
\<close>

theorem descriptor_set_once:
  assumes "bt \<in> supported_backends"
  shows "\<exists>n. fully_connected_layer_new env this i out b bt = Inr n \<and>
     in_size (params n) = i \<and> out_size (params n) = out \<and> has_bias (params n) = b \<and>
     (s this = Some n \<and> calls K this s s' \<longrightarrow>
        (\<exists>n'. s' this = Some n' \<and> params n' = params n)) \<and>
     (\<exists>n1 n2. fully_connected_layer_move env that n = Inr (n1, n2) \<and>
        params n1 = params n \<and> params n2 = params n)"
proof -
  let ?n = "\<lparr>base = (new_layer env)\<lparr>layer_in_type := [data], layer_out_type := [data],
             layer_parameters :=
               \<lparr>p_shape = (1, 1, out, i), p_type = parameter_type_weight, p_trainable = True,
                 p_tensor = new_tensor env (1, 1, out, i)\<rparr> #
               (if b then [\<lparr>p_shape = (1, 1, 1, out), p_type = parameter_type_bias,
                             p_trainable = True, p_tensor = new_tensor env (1, 1, 1, out)\<rparr>]
                else []),
             layer_backend_type := bt\<rparr>,
           params = (new_fully_params env)\<lparr>in_size := i, out_size := out, has_bias := b\<rparr>,
           fwd_ctx = new_context env, bwd_ctx = new_context env,
           kernel_fwd = Some (FullyConnectedOp
             \<lparr>oc_device = layer_device (new_layer env), oc_params = this\<rparr>),
           kernel_back = Some (FullyConnectedGradOp
             \<lparr>oc_device = layer_device (new_layer env), oc_params = this\<rparr>)\<rparr>"
  have new: "fully_connected_layer_new env this i out b bt = Inr ?n"
    by (rule new_supported [OF assms])
  have "engine (base ?n) \<in> supported_backends"
    using assms by (simp add: engine_def)
  from move_supported [OF this, of env that]
  have move: "\<exists>n1 n2. fully_connected_layer_move env that ?n = Inr (n1, n2) \<and>
        params n1 = params ?n \<and> params n2 = params ?n"
    by simp
  have hist: "s this = Some ?n \<and> calls K this s s' \<longrightarrow>
        (\<exists>n'. s' this = Some n' \<and> params n' = params ?n)"
    using calls_params [of K this s s' ?n] by blast
  have "in_size (params ?n) = i \<and> out_size (params ?n) = out \<and> has_bias (params ?n) = b"
    by simp
  with new move hist show ?thesis
    by blast
qed

theorem descriptor_set_once_witness:
  "\<exists>n. fully_connected_layer_new example_collaborators 7 3 2 True internal = Inr n \<and>
     in_size (params n) = 3 \<and> out_size (params n) = 2 \<and> has_bias (params n) \<and>
     (\<exists>n'. (example_store(7 \<mapsto> example_bound_layer)) 7 = Some n' \<and>
        params n' = params n) \<and>
     (\<exists>n1 n2. fully_connected_layer_move example_collaborators 9 n = Inr (n1, n2) \<and>
        params n1 = params n \<and> params n2 = params n)"
proof -
  from descriptor_set_once [OF internal_supported, of example_collaborators 7 3 2 True
      example_store observe_context "example_store(7 \<mapsto> example_bound_layer)" 9]
  obtain n where n: "fully_connected_layer_new example_collaborators 7 3 2 True internal = Inr n"
    and fields: "in_size (params n) = 3" "out_size (params n) = 2" "has_bias (params n)"
    and hist: "example_store 7 = Some n \<and>
        calls observe_context 7 example_store (example_store(7 \<mapsto> example_bound_layer)) \<longrightarrow>
        (\<exists>n'. (example_store(7 \<mapsto> example_bound_layer)) 7 = Some n' \<and> params n' = params n)"
    and move: "\<exists>n1 n2. fully_connected_layer_move example_collaborators 9 n = Inr (n1, n2) \<and>
        params n1 = params n \<and> params n2 = params n"
    by blast
  from n have "n = example_layer"
    by (simp add: example_new)
  with hist example_store_at example_history
  have "\<exists>n'. (example_store(7 \<mapsto> example_bound_layer)) 7 = Some n' \<and> params n' = params n"
    by blast
  with n fields move show ?thesis
    by blast
qed

text \<open>
  The claim C9 as stated says that construction establishes \<open>in_size > 0\<close> and
  \<open>out_size > 0\<close>. The constructor of lines 36 to 49 accepts the sizes 0 and 0:
  it succeeds, and the descriptor of the layer holds them.
\<close>

theorem zero_sizes_counterexample:
  "\<not> isl (fully_connected_layer_new example_collaborators 7 0 0 False internal) \<and>
   in_size (params (projr (fully_connected_layer_new example_collaborators 7 0 0 False internal))) = 0 \<and>
   out_size (params (projr (fully_connected_layer_new example_collaborators 7 0 0 False internal))) = 0 \<and>
   \<not> 0 < fan_in_size (projr (fully_connected_layer_new example_collaborators 7 0 0 False internal))"
  by (simp add: new_supported [OF internal_supported] fan_in_size_def)

subsection \<open>Move construction\<close>

text \<open>
  Claim C8, as amended. Move construction, from a layer whose backend handle is
  supported, takes over the base sub-object (the parameters with it) and the
  descriptor, and runs \<^verbatim>\<open>init_backend\<close> again, on the moved-in members and the
  backend handle read from the moved-from layer: the kernels of the new layer
  are constructed anew, with a back-reference to the new layer, and the
  moved-from layer is left with null kernel pointers and no parameters. The two
  execution contexts are not transferred: the initialiser list of lines 67 to 70
  leaves them out, so the new layer has default-constructed contexts and the old
  contexts stay in the moved-from layer. (A kernel taken over as it was would
  refer to the descriptor of the old layer; a call through it after the old
  layer is gone has no result, as \<open>forward_propagation_dangling\<close> says.)
\<close>

theorem move_construction:
  assumes "engine (base other) \<in> supported_backends"
  shows "\<exists>n left. fully_connected_layer_move env this other = Inr (n, left) \<and>
     base n = base other \<and> params n = params other \<and>
     init_backend env this
       \<lparr>base = base other, params = params other, fwd_ctx = new_context env,
        bwd_ctx = new_context env, kernel_fwd = kernel_fwd other,
        kernel_back = kernel_back other\<rparr> (engine (base other)) = Inr n \<and>
     kernel_fwd n =
       Some (FullyConnectedOp \<lparr>oc_device = device (base other), oc_params = this\<rparr>) \<and>
     kernel_back n =
       Some (FullyConnectedGradOp \<lparr>oc_device = device (base other), oc_params = this\<rparr>) \<and>
     (\<forall>k. kernel_fwd other = Some k \<and> oc_params (construction k) \<noteq> this \<longrightarrow>
        kernel_fwd n \<noteq> kernel_fwd other) \<and>
     (\<forall>k. kernel_back other = Some k \<and> oc_params (construction k) \<noteq> this \<longrightarrow>
        kernel_back n \<noteq> kernel_back other) \<and>
     fwd_ctx n = new_context env \<and> bwd_ctx n = new_context env \<and>
     kernel_fwd left = None \<and> kernel_back left = None \<and>
     parameters (base left) = [] \<and> params left = params other \<and>
     fwd_ctx left = fwd_ctx other \<and> bwd_ctx left = bwd_ctx other"
  using assms
  by (auto simp add: move_supported init_backend_eq parameters_def device_def)

theorem move_construction_witness:
  "\<exists>n left. fully_connected_layer_move example_collaborators 9 example_bound_layer = Inr (n, left) \<and>
     parameters (base n) = parameters (base example_layer) \<and>
     params n = \<lparr>in_size = 3, out_size = 2, has_bias = True\<rparr> \<and>
     kernel_fwd n = Some (FullyConnectedOp \<lparr>oc_device = None, oc_params = 9\<rparr>) \<and>
     kernel_back n = Some (FullyConnectedGradOp \<lparr>oc_device = None, oc_params = 9\<rparr>) \<and>
     kernel_fwd example_bound_layer =
       Some (FullyConnectedOp \<lparr>oc_device = None, oc_params = 7\<rparr>) \<and>
     kernel_fwd n \<noteq> kernel_fwd example_bound_layer \<and>
     fwd_ctx n = new_context example_collaborators \<and>
     bwd_ctx n = new_context example_collaborators \<and>
     kernel_fwd left = None \<and> kernel_back left = None \<and>
     forward_propagation observe_context 9 [11] [12] (Map.empty(9 \<mapsto> n)) () \<noteq> None \<and>
     forward_propagation observe_context 9 [11] [12]
       (Map.empty(9 \<mapsto> n\<lparr>kernel_fwd := kernel_fwd example_bound_layer\<rparr>)) () = None"
proof -
  have "engine (base example_bound_layer) \<in> supported_backends"
    by (simp add: example_bound_layer_eq example_layer_fields internal_supported)
  from move_construction [OF this, of example_collaborators 9]
  obtain n left where
    move: "fully_connected_layer_move example_collaborators 9 example_bound_layer = Inr (n, left)"
    and members: "base n = base example_bound_layer" "params n = params example_bound_layer"
      "kernel_fwd n = Some (FullyConnectedOp
         \<lparr>oc_device = device (base example_bound_layer), oc_params = 9\<rparr>)"
      "kernel_back n = Some (FullyConnectedGradOp
         \<lparr>oc_device = device (base example_bound_layer), oc_params = 9\<rparr>)"
      "fwd_ctx n = new_context example_collaborators"
      "bwd_ctx n = new_context example_collaborators"
      "kernel_fwd left = None" "kernel_back left = None"
    by (elim exE conjE)
  have old: "kernel_fwd example_bound_layer =
      Some (FullyConnectedOp \<lparr>oc_device = None, oc_params = 7\<rparr>)"
    "device (base example_bound_layer) = None"
    "parameters (base example_bound_layer) = parameters (base example_layer)"
    "params example_bound_layer = \<lparr>in_size = 3, out_size = 2, has_bias = True\<rparr>"
    by (simp_all add: example_bound_layer_eq example_layer_fields example_layer_eq device_def)
  have fresh: "forward_propagation observe_context 9 [11] [12] (Map.empty(9 \<mapsto> n)) () \<noteq> None"
    using forward_propagation_eq [where s = "Map.empty(9 \<mapsto> n)" and this = 9 and n = n
        and K = observe_context, OF _ members(3), of "[11]" "[12]" "()"]
    by simp
  have verbatim: "forward_propagation observe_context 9 [11] [12]
       (Map.empty(9 \<mapsto> n\<lparr>kernel_fwd := kernel_fwd example_bound_layer\<rparr>)) () = None"
    by (rule forward_propagation_dangling
        [where n = "n\<lparr>kernel_fwd := kernel_fwd example_bound_layer\<rparr>"
          and k = "FullyConnectedOp \<lparr>oc_device = None, oc_params = 7\<rparr>"])
      (simp_all add: old)
  from move members old fresh verbatim show ?thesis
    by (intro exI [of _ n] exI [of _ left]) (simp add: parameters_def)
qed

text \<open>
  The claim C8 as stated says that the contexts are transferred. Moving the
  layer that a Forward call on the buffers at 11 and 12 has left gives a layer
  whose forward context has no input bound.
\<close>

theorem move_contexts_counterexample:
  "\<not> isl (fully_connected_layer_move example_collaborators 9 example_bound_layer) \<and>
   forward_propagation observe_context 7 [11] [12] example_store () =
     Some (example_store(7 \<mapsto> example_bound_layer), fwd_ctx example_bound_layer) \<and>
   ctx_in_data (fwd_ctx example_bound_layer) = Some [11] \<and>
   ctx_in_data (fwd_ctx (fst (projr
     (fully_connected_layer_move example_collaborators 9 example_bound_layer)))) = None \<and>
   fwd_ctx (fst (projr (fully_connected_layer_move example_collaborators 9 example_bound_layer)))
     \<noteq> fwd_ctx example_bound_layer"
proof -
  have "engine (base example_bound_layer) \<in> supported_backends"
    by (simp add: example_bound_layer_eq example_layer_fields internal_supported)
  note move = move_supported [OF this, of example_collaborators 9]
  show ?thesis
    by (simp add: move example_forward observe_context_def new_context_example)
      (simp add: example_bound_layer_eq)
qed

subsection \<open>Rebinding of the execution contexts\<close>

text \<open>
  Claim C7. After any history of calls on a layer, a Forward or Backward call
  first rebinds the context and then invokes the kernel: the context the
  kernel is called with (the third argument of \<open>K\<close>, for every kernel
  semantics \<open>K\<close>) holds the buffers of the current call, the layer's current
  parallelism flag, backend handle and parameter list. A Backward call writes
  all seven fields of the backward context, so nothing of it survives from an
  earlier call. A Forward call writes the input and output references and the
  three hints of the forward context; the two gradient references of that
  context are written by no call, and are still what they were at the start of
  the history \<open>s0\<close>.
\<close>

theorem context_rebound_before_kernel:
  assumes "calls K this s0 s" and "s0 this = Some n0" and "s this = Some n"
    and "kernel_fwd n = Some kf" and "oc_params (construction kf) = this"
    and "kernel_back n = Some kb" and "oc_params (construction kb) = this"
  shows "forward_propagation K this ins outs s m =
     Some (s(this \<mapsto> n\<lparr>fwd_ctx :=
               \<lparr>ctx_in_data = Some ins, ctx_out_data = Some outs,
                ctx_out_grad = ctx_out_grad (fwd_ctx n0), ctx_in_grad = ctx_in_grad (fwd_ctx n0),
                ctx_parallelize = parallelize (base n), ctx_engine = engine (base n),
                ctx_parameters = parameters (base n)\<rparr>\<rparr>),
           K kf (params n)
             \<lparr>ctx_in_data = Some ins, ctx_out_data = Some outs,
              ctx_out_grad = ctx_out_grad (fwd_ctx n0), ctx_in_grad = ctx_in_grad (fwd_ctx n0),
              ctx_parallelize = parallelize (base n), ctx_engine = engine (base n),
              ctx_parameters = parameters (base n)\<rparr> m) \<and>
   back_propagation K this ins outs og ig s m =
     Some (s(this \<mapsto> n\<lparr>bwd_ctx :=
               \<lparr>ctx_in_data = Some ins, ctx_out_data = Some outs,
                ctx_out_grad = Some og, ctx_in_grad = Some ig,
                ctx_parallelize = parallelize (base n), ctx_engine = engine (base n),
                ctx_parameters = parameters (base n)\<rparr>\<rparr>),
           K kb (params n)
             \<lparr>ctx_in_data = Some ins, ctx_out_data = Some outs,
              ctx_out_grad = Some og, ctx_in_grad = Some ig,
              ctx_parallelize = parallelize (base n), ctx_engine = engine (base n),
              ctx_parameters = parameters (base n)\<rparr> m)"
proof -
  from calls_invariant [OF assms(1,2)] assms(3)
  have "ctx_out_grad (fwd_ctx n) = ctx_out_grad (fwd_ctx n0)"
    and "ctx_in_grad (fwd_ctx n) = ctx_in_grad (fwd_ctx n0)"
    by auto
  with forward_propagation_eq [where s = s and this = this, OF assms(3,4,5), of K ins outs m]
    back_propagation_eq [where s = s and this = this, OF assms(3,6,7), of K ins outs og ig m]
  show ?thesis by simp
qed

theorem context_rebound_before_kernel_witness:
  "\<exists>s1 r1 s2 s3.
     forward_propagation observe_context 7 [11] [12] example_store () = Some (s1, r1) \<and>
     ctx_in_data r1 = Some [11] \<and> ctx_out_data r1 = Some [12] \<and>
     forward_propagation observe_context 7 [21] [22] s1 () =
       Some (s2, \<lparr>ctx_in_data = Some [21], ctx_out_data = Some [22], ctx_out_grad = None,
                  ctx_in_grad = None, ctx_parallelize = True, ctx_engine = internal,
                  ctx_parameters = parameters (base example_layer)\<rparr>) \<and>
     back_propagation observe_context 7 [21] [22] [23] [24] s1 () =
       Some (s3, \<lparr>ctx_in_data = Some [21], ctx_out_data = Some [22], ctx_out_grad = Some [23],
                  ctx_in_grad = Some [24], ctx_parallelize = True, ctx_engine = internal,
                  ctx_parameters = parameters (base example_layer)\<rparr>)"
proof -
  let ?K = "observe_context :: OpKernel \<Rightarrow> fully_params \<Rightarrow> int tensor_t OpKernelContext \<Rightarrow> unit \<Rightarrow> int tensor_t OpKernelContext"
  let ?c1 = "\<lparr>ctx_in_data = Some [11], ctx_out_data = Some [12],
      ctx_out_grad = ctx_out_grad (fwd_ctx example_layer),
      ctx_in_grad = ctx_in_grad (fwd_ctx example_layer),
      ctx_parallelize = parallelize (base example_layer),
      ctx_engine = engine (base example_layer),
      ctx_parameters = parameters (base example_layer)\<rparr>"
  let ?n1 = "example_layer\<lparr>fwd_ctx := ?c1\<rparr>"
  let ?s1 = "example_store(7 \<mapsto> ?n1)"
  have at: "example_store 7 = Some example_layer"
    by (simp add: example_store_def)
  have first: "forward_propagation ?K 7 [11] [12] example_store () = Some (?s1, ?c1)"
    using forward_propagation_eq [where s = example_store and this = 7 and K = ?K,
        OF at example_layer_fields(1), of "[11]" "[12]" "()"]
    by (simp add: observe_context_def)
  have history: "calls ?K 7 example_store ?s1"
    by (rule calls_forward [OF calls_none first])
  have now: "?s1 7 = Some ?n1"
    by simp
  have "kernel_fwd ?n1 = Some (FullyConnectedOp \<lparr>oc_device = None, oc_params = 7\<rparr>)"
    and "kernel_back ?n1 = Some (FullyConnectedGradOp \<lparr>oc_device = None, oc_params = 7\<rparr>)"
    by (simp_all add: example_layer_fields)
  note launch = context_rebound_before_kernel [where K = ?K and this = 7
      and ?s0.0 = example_store and s = ?s1, OF history at now this(1) _ this(2),
      of "[21]" "[22]" "()" "[23]" "[24]"]
  let ?r2 = "\<lparr>ctx_in_data = Some [21], ctx_out_data = Some [22],
      ctx_out_grad = ctx_out_grad (fwd_ctx example_layer),
      ctx_in_grad = ctx_in_grad (fwd_ctx example_layer),
      ctx_parallelize = parallelize (base ?n1), ctx_engine = engine (base ?n1),
      ctx_parameters = parameters (base ?n1)\<rparr>"
  let ?r3 = "\<lparr>ctx_in_data = Some [21], ctx_out_data = Some [22],
      ctx_out_grad = Some [23], ctx_in_grad = Some [24],
      ctx_parallelize = parallelize (base ?n1), ctx_engine = engine (base ?n1),
      ctx_parameters = parameters (base ?n1)\<rparr>"
  have second: "forward_propagation ?K 7 [21] [22] ?s1 () =
      Some (?s1(7 \<mapsto> ?n1\<lparr>fwd_ctx := ?r2\<rparr>), ?r2)"
    using launch by (simp add: observe_context_def)
  have third: "back_propagation ?K 7 [21] [22] [23] [24] ?s1 () =
      Some (?s1(7 \<mapsto> ?n1\<lparr>bwd_ctx := ?r3\<rparr>), ?r3)"
    using launch by (simp add: observe_context_def)
  have r1: "ctx_in_data ?c1 = Some [11]" "ctx_out_data ?c1 = Some [12]"
    by simp_all
  have r2: "?r2 = \<lparr>ctx_in_data = Some [21], ctx_out_data = Some [22], ctx_out_grad = None,
      ctx_in_grad = None, ctx_parallelize = True, ctx_engine = internal,
      ctx_parameters = parameters (base example_layer)\<rparr>"
    by (simp add: example_layer_fields new_context_example)
  have r3: "?r3 = \<lparr>ctx_in_data = Some [21], ctx_out_data = Some [22], ctx_out_grad = Some [23],
      ctx_in_grad = Some [24], ctx_parallelize = True, ctx_engine = internal,
      ctx_parameters = parameters (base example_layer)\<rparr>"
    by (simp add: example_layer_fields)
  show ?thesis
    by (rule exI conjI first r1 second [unfolded r2] third [unfolded r3])+
qed

subsection \<open>What a propagation call leaves unchanged\<close>

text \<open>
  Claim C10. A Forward call changes the member \<^verbatim>\<open>fwd_ctx_\<close> of its layer and nothing
  else in the store: the descriptor, both kernels, the backward context and the
  base sub-object of the layer are as before, and so is every other object.
  Symmetrically a Backward call changes the member \<^verbatim>\<open>bwd_ctx_\<close> only.
\<close>

theorem propagation_frame:
  assumes "s this = Some n"
    and "kernel_fwd n = Some kf" and "oc_params (construction kf) = this"
    and "kernel_back n = Some kb" and "oc_params (construction kb) = this"
  shows "(\<exists>s' r n'. forward_propagation K this ins outs s m = Some (s', r) \<and>
            s' this = Some n' \<and> params n' = params n \<and>
            kernel_fwd n' = kernel_fwd n \<and> kernel_back n' = kernel_back n \<and>
            bwd_ctx n' = bwd_ctx n \<and> base n' = base n \<and>
            (\<forall>a. a \<noteq> this \<longrightarrow> s' a = s a)) \<and>
         (\<exists>s' r n'. back_propagation K this ins outs og ig s m = Some (s', r) \<and>
            s' this = Some n' \<and> params n' = params n \<and>
            kernel_fwd n' = kernel_fwd n \<and> kernel_back n' = kernel_back n \<and>
            fwd_ctx n' = fwd_ctx n \<and> base n' = base n \<and>
            (\<forall>a. a \<noteq> this \<longrightarrow> s' a = s a))"
proof (rule conjI)
  from forward_propagation_eq [where s = s and this = this, OF assms(1,2,3), of K ins outs m]
  show "\<exists>s' r n'. forward_propagation K this ins outs s m = Some (s', r) \<and>
            s' this = Some n' \<and> params n' = params n \<and>
            kernel_fwd n' = kernel_fwd n \<and> kernel_back n' = kernel_back n \<and>
            bwd_ctx n' = bwd_ctx n \<and> base n' = base n \<and>
            (\<forall>a. a \<noteq> this \<longrightarrow> s' a = s a)"
    by simp
next
  from back_propagation_eq [where s = s and this = this, OF assms(1,4,5), of K ins outs og ig m]
  show "\<exists>s' r n'. back_propagation K this ins outs og ig s m = Some (s', r) \<and>
            s' this = Some n' \<and> params n' = params n \<and>
            kernel_fwd n' = kernel_fwd n \<and> kernel_back n' = kernel_back n \<and>
            fwd_ctx n' = fwd_ctx n \<and> base n' = base n \<and>
            (\<forall>a. a \<noteq> this \<longrightarrow> s' a = s a)"
    by simp
qed

theorem propagation_frame_witness:
  "(\<exists>s' r n'. forward_propagation observe_context 7 [11] [12] example_store () = Some (s', r) \<and>
      s' 7 = Some n' \<and> params n' = \<lparr>in_size = 3, out_size = 2, has_bias = True\<rparr> \<and>
      kernel_fwd n' = kernel_fwd example_layer \<and> kernel_back n' = kernel_back example_layer \<and>
      bwd_ctx n' = new_context example_collaborators \<and> s' 8 = None) \<and>
   (\<exists>s' r n'. back_propagation observe_context 7 [11] [12] [13] [14] example_store () = Some (s', r) \<and>
      s' 7 = Some n' \<and> params n' = \<lparr>in_size = 3, out_size = 2, has_bias = True\<rparr> \<and>
      kernel_fwd n' = kernel_fwd example_layer \<and> kernel_back n' = kernel_back example_layer \<and>
      fwd_ctx n' = new_context example_collaborators \<and> s' 8 = None)"
proof -
  have away: "example_store 8 = None"
    by (simp add: example_store_def)
  have "oc_params (construction (FullyConnectedOp \<lparr>oc_device = None, oc_params = 7\<rparr>)) = 7"
    and "oc_params (construction (FullyConnectedGradOp \<lparr>oc_device = None, oc_params = 7\<rparr>)) = 7"
    by simp_all
  note frame = propagation_frame [where s = example_store and this = 7 and K = observe_context,
      OF example_store_at example_layer_fields(1) this(1) example_layer_fields(2) this(2),
      of "[11]" "[12]" "()" "[13]" "[14]"]
  from frame obtain s1 r1 n1 where
    "forward_propagation observe_context 7 [11] [12] example_store () = Some (s1, r1)"
    "s1 7 = Some n1" "params n1 = params example_layer"
    "kernel_fwd n1 = kernel_fwd example_layer" "kernel_back n1 = kernel_back example_layer"
    "bwd_ctx n1 = bwd_ctx example_layer" "s1 8 = example_store 8"
    by auto
  moreover from frame obtain s2 r2 n2 where
    "back_propagation observe_context 7 [11] [12] [13] [14] example_store () = Some (s2, r2)"
    "s2 7 = Some n2" "params n2 = params example_layer"
    "kernel_fwd n2 = kernel_fwd example_layer" "kernel_back n2 = kernel_back example_layer"
    "fwd_ctx n2 = fwd_ctx example_layer" "s2 8 = example_store 8"
    by auto
  ultimately show ?thesis
    by (simp add: example_layer_fields away)
qed

subsection \<open>Forward propagation with the forward kernel of the specification\<close>

text \<open>
  Where addition is associative with unit 0, \<open>dot\<close> is the sum of the products.
\<close>

lemma dot_sum_list:
  fixes x :: "'a::semiring_0 list"
  shows "dot x w = sum_list (map2 (*) x w)"
proof -
  have "foldl (+) a ys = a + sum_list ys" for a :: 'a and ys
    by (induction ys arbitrary: a) (simp_all add: add.assoc)
  then show ?thesis by (simp add: dot_def)
qed

lemma fully_connected_row_nth:
  assumes "j < length W"
  shows "fully_connected_row W None x ! j = dot x (W ! j)"
    and "length bs = length W \<Longrightarrow>
      fully_connected_row W (Some bs) x ! j = dot x (W ! j) + bs ! j"
  using assms by (simp_all add: fully_connected_row_def)

lemma fully_connected_row_length:
  "length (fully_connected_row W None x) = length W"
  "length bs = length W \<Longrightarrow> length (fully_connected_row W (Some bs) x) = length W"
  by (simp_all add: fully_connected_row_def)

lemma is_matrix_map:
  assumes "\<And>x. length (f x) = c"
  shows "is_matrix (length X) c (map f X)"
  using assms by (simp add: is_matrix_def list_all_iff)

lemma bias_row_eq:
  "\<not> has_bias p \<Longrightarrow> bias_row p c = Some None"
  "has_bias p \<Longrightarrow> find_parameter parameter_type_bias (ctx_parameters c) = Some B \<Longrightarrow>
     p_tensor B = [bs] \<Longrightarrow> length bs = unat (out_size p) \<Longrightarrow> bias_row p c = Some (Some bs)"
  by (simp_all add: bias_row_def)

lemma FullyConnectedOp_compute_eq:
  assumes "ctx_in_data c = Some [ia]" and "ctx_out_data c = Some [oa]"
    and "m ia = Some X" and "m oa = Some Y"
    and "find_parameter parameter_type_weight (ctx_parameters c) = Some W"
    and "bias_row p c = Some b"
    and "is_matrix (length X) (unat (in_size p)) X"
    and "is_matrix (length X) (unat (out_size p)) Y"
    and "is_matrix (unat (out_size p)) (unat (in_size p)) (p_tensor W)"
  shows "FullyConnectedOp_compute p c m =
     Some (m(oa \<mapsto> map (fully_connected_row (p_tensor W) b) X))"
  using assms by (simp add: FullyConnectedOp_compute_def)

text \<open>
  The constructor of lines 36 to 49 builds a layer on which the forward kernel
  can run, whenever the storage allocated for a parameter has the extents asked
  for: the forward kernel refers back to the new layer, the weight parameter is
  registered with \<open>out_size\<close> rows of length \<open>in_size\<close> and, if a bias is
  configured, the bias parameter with one row of length \<open>out_size\<close>.
\<close>

lemma constructed_layer_holds_parameters:
  assumes "bt \<in> supported_backends"
    and "\<And>r c. is_matrix (unat r) (unat c) (new_tensor env (1, 1, r, c))"
  shows "\<exists>n W. fully_connected_layer_new env this i out b bt = Inr n \<and>
     kernel_fwd n = Some (FullyConnectedOp \<lparr>oc_device = device (base n), oc_params = this\<rparr>) \<and>
     find_parameter parameter_type_weight (parameters (base n)) = Some W \<and>
     is_matrix (unat (out_size (params n))) (unat (in_size (params n))) (p_tensor W) \<and>
     (has_bias (params n) \<longrightarrow>
        (\<exists>B bs. find_parameter parameter_type_bias (parameters (base n)) = Some B \<and>
           p_tensor B = [bs] \<and> length bs = unat (out_size (params n))))"
proof -
  from assms(2) [of 1 out] obtain bs where
    "new_tensor env (1, 1, 1, out) = [bs]" and "length bs = unat out"
    by (cases "new_tensor env (1, 1, 1, out)") (auto simp add: is_matrix_def)
  with assms(2) [of out i] show ?thesis
    by (simp add: new_supported [OF assms(1)] find_parameter_def parameters_def device_def)
qed

text \<open>
  Forward on a layer that holds its parameters. Let a layer hold its weight
  parameter (\<open>out_size\<close> rows of \<open>in_size\<close> entries) and, iff it is configured
  with a bias, its bias parameter, as the constructor of lines 36 to 49
  registers them, and let the forward kernel selected at construction compute
  what the specification says. A Forward call on one input tensor with rows of
  length \<open>in_size\<close> and one allocated output tensor with as many rows of length
  \<open>out_size\<close> binds the forward context to these two buffers, stamps in the
  layer's current parallelism flag, backend handle and parameter list, and
  invokes the kernel, which overwrites every row of the output with
  \<open>input \<cdot> weight\<^sup>T + bias\<close> (the bias term iff configured). No tensor is
  allocated or freed, the output tensor keeps its extents, and every other
  tensor keeps its contents.
\<close>

lemma forward_propagation_affine:
  fixes K :: "OpKernel \<Rightarrow> fully_params \<Rightarrow> 'a::{zero,plus,times} tensor_t OpKernelContext \<Rightarrow>
     'a memory \<Rightarrow> 'a memory option"
  assumes kernel: "\<And>oc. K (FullyConnectedOp oc) = FullyConnectedOp_compute"
    and node: "s this = Some n"
    and selected: "kernel_fwd n = Some (FullyConnectedOp oc)" and refers: "oc_params oc = this"
    and weight: "find_parameter parameter_type_weight (parameters (base n)) = Some W"
      "is_matrix (unat (out_size (params n))) (unat (in_size (params n))) (p_tensor W)"
    and bias: "has_bias (params n) \<Longrightarrow>
      find_parameter parameter_type_bias (parameters (base n)) = Some B \<and>
      p_tensor B = [bs] \<and> length bs = unat (out_size (params n))"
    and source: "m ia = Some X" "is_matrix (length X) (unat (in_size (params n))) X"
    and target: "m oa = Some Y" "is_matrix (length X) (unat (out_size (params n))) Y"
  shows "\<exists>c Y'. forward_propagation K this [ia] [oa] s m =
        Some (s(this \<mapsto> n\<lparr>fwd_ctx := c\<rparr>), Some (m(oa \<mapsto> Y'))) \<and>
      ctx_in_data c = Some [ia] \<and> ctx_out_data c = Some [oa] \<and>
      ctx_parallelize c = parallelize (base n) \<and> ctx_engine c = engine (base n) \<and>
      ctx_parameters c = parameters (base n) \<and>
      Y' = map (fully_connected_row (p_tensor W)
                 (if has_bias (params n) then Some bs else None)) X \<and>
      (\<forall>r<length X. \<forall>j<unat (out_size (params n)).
         Y' ! r ! j = (if has_bias (params n)
                       then dot (X ! r) (p_tensor W ! j) + bs ! j
                       else dot (X ! r) (p_tensor W ! j))) \<and>
      is_matrix (length Y) (unat (out_size (params n))) Y' \<and>
      dom (m(oa \<mapsto> Y')) = dom m \<and> (\<forall>a. a \<noteq> oa \<longrightarrow> (m(oa \<mapsto> Y')) a = m a)"
proof -
  let ?c = "\<lparr>ctx_in_data = Some [ia], ctx_out_data = Some [oa],
      ctx_out_grad = ctx_out_grad (fwd_ctx n), ctx_in_grad = ctx_in_grad (fwd_ctx n),
      ctx_parallelize = parallelize (base n), ctx_engine = engine (base n),
      ctx_parameters = parameters (base n)\<rparr>"
  let ?p = "params n"
  let ?b = "if has_bias ?p then Some bs else None"
  let ?Y = "map (fully_connected_row (p_tensor W) ?b) X"
  have rows: "length (p_tensor W) = unat (out_size ?p)"
    using weight(2) by (simp add: is_matrix_def)
  have same: "length Y = length X"
    using target(2) by (simp add: is_matrix_def)
  have b: "bias_row ?p ?c = Some ?b"
    using bias by (cases "has_bias ?p") (simp_all add: bias_row_eq)
  have "construction (FullyConnectedOp oc) = oc"
    by simp
  with refers have "oc_params (construction (FullyConnectedOp oc)) = this"
    by simp
  from forward_propagation_eq [where s = s and this = this, OF node selected this, of K "[ia]" "[oa]" m]
  have call: "forward_propagation K this [ia] [oa] s m =
      Some (s(this \<mapsto> n\<lparr>fwd_ctx := ?c\<rparr>), FullyConnectedOp_compute ?p ?c m)"
    by (simp add: kernel)
  have "FullyConnectedOp_compute ?p ?c m = Some (m(oa \<mapsto> ?Y))"
    by (rule FullyConnectedOp_compute_eq [where ia = ia and X = X and Y = Y])
      (simp_all add: source target weight b)
  with call have result: "forward_propagation K this [ia] [oa] s m =
      Some (s(this \<mapsto> n\<lparr>fwd_ctx := ?c\<rparr>), Some (m(oa \<mapsto> ?Y)))"
    by simp
  have entries: "\<forall>r<length X. \<forall>j<unat (out_size ?p).
      ?Y ! r ! j = (if has_bias ?p then dot (X ! r) (p_tensor W ! j) + bs ! j
                    else dot (X ! r) (p_tensor W ! j))"
    using bias rows by (simp add: fully_connected_row_nth)
  have shape: "is_matrix (length Y) (unat (out_size ?p)) ?Y"
    unfolding same using bias rows
    by (intro is_matrix_map) (simp add: fully_connected_row_length)
  have frame: "dom (m(oa \<mapsto> ?Y)) = dom m"
    using target(1) by auto
  from result entries shape frame show ?thesis
    by (intro exI [of _ ?c] exI [of _ ?Y]) simp
qed

lemma forward_propagation_affine_example:
  "\<exists>s'. forward_propagation forward_only_compute 7 [11] [12]
          (Map.empty(7 \<mapsto> example_trained_layer)) example_memory =
        Some (s', Some (example_memory(12 \<mapsto> [[17, 36], [12, 25]]))) \<and>
      (\<exists>n'. s' 7 = Some n' \<and> ctx_in_data (fwd_ctx n') = Some [11] \<and>
         ctx_out_data (fwd_ctx n') = Some [12] \<and>
         ctx_parameters (fwd_ctx n') = parameters (base example_trained_layer))"
proof -
  let ?W = "\<lparr>p_shape = (1, 1, 2, 3), p_type = parameter_type_weight, p_trainable = True,
        p_tensor = [[1, 2, 3], [4, 5, 6::int]]\<rparr>"
  let ?B = "\<lparr>p_shape = (1, 1, 1, 2), p_type = parameter_type_bias, p_trainable = True,
        p_tensor = [[10, 20::int]]\<rparr>"
  let ?s = "Map.empty(7 \<mapsto> example_trained_layer)"
  have kernel: "\<And>oc. (forward_only_compute :: OpKernel \<Rightarrow> fully_params \<Rightarrow>
      int tensor_t OpKernelContext \<Rightarrow> int memory \<Rightarrow> int memory option) (FullyConnectedOp oc) =
      FullyConnectedOp_compute"
    by (simp add: forward_only_compute_def)
  have node: "?s 7 = Some example_trained_layer"
    by simp
  have refers: "oc_params \<lparr>oc_device = None, oc_params = 7\<rparr> = 7"
    by simp
  have weight: "find_parameter parameter_type_weight (parameters (base example_trained_layer)) =
      Some ?W"
    and weight_shape: "is_matrix (unat (out_size (params example_trained_layer)))
      (unat (in_size (params example_trained_layer))) (p_tensor ?W)"
    by (simp_all add: example_trained_layer_fields find_parameter_def is_matrix_def)
  have bias: "find_parameter parameter_type_bias (parameters (base example_trained_layer)) = Some ?B \<and>
      p_tensor ?B = [[10, 20]] \<and> length [10, 20::int] = unat (out_size (params example_trained_layer))"
    by (simp add: example_trained_layer_fields find_parameter_def)
  have source: "example_memory 11 = Some [[1, 0, 2], [0, 1, 0]]"
    and source_shape: "is_matrix (length [[1, 0, 2], [0, 1, 0::int]])
      (unat (in_size (params example_trained_layer))) [[1, 0, 2], [0, 1, 0]]"
    and target: "example_memory 12 = Some [[0, 0], [0, 0]]"
    and target_shape: "is_matrix (length [[1, 0, 2], [0, 1, 0::int]])
      (unat (out_size (params example_trained_layer))) [[0, 0], [0, 0::int]]"
    by (simp_all add: example_memory_def example_trained_layer_fields is_matrix_def)
  note affine = forward_propagation_affine [where K = forward_only_compute and s = ?s
      and this = 7 and m = example_memory,
      OF kernel node example_trained_layer_fields(1) refers weight weight_shape bias
        source source_shape target target_shape]
  from affine obtain c Y' where
    call: "forward_propagation forward_only_compute 7 [11] [12] ?s example_memory =
        Some (?s(7 \<mapsto> example_trained_layer\<lparr>fwd_ctx := c\<rparr>), Some (example_memory(12 \<mapsto> Y')))"
    and ctx: "ctx_in_data c = Some [11]" "ctx_out_data c = Some [12]"
      "ctx_parameters c = parameters (base example_trained_layer)"
    and Y': "Y' = map (fully_connected_row (p_tensor ?W)
                 (if has_bias (params example_trained_layer) then Some [10, 20] else None))
               [[1, 0, 2], [0, 1, 0]]"
    by (elim exE conjE)
  from Y' have "Y' = [[17, 36], [12, 25]]"
    by (simp add: example_trained_layer_fields fully_connected_row_def dot_def)
  with call ctx show ?thesis
    by simp
qed

text \<open>
  Forward on a layer built from the configuration record. The kernel is called
  with an empty parameter list, so the forward kernel of the specification
  finds no weight and writes no output.
\<close>

lemma FullyConnectedOp_compute_no_weight:
  assumes "find_parameter parameter_type_weight (ctx_parameters c) = None"
  shows "FullyConnectedOp_compute p c m = None"
  using assms
  by (simp add: FullyConnectedOp_compute_def split: Option.bind_splits)

lemma forward_on_layer_without_weight:
  fixes K :: "OpKernel \<Rightarrow> fully_params \<Rightarrow> 'a::{zero,plus,times} tensor_t OpKernelContext \<Rightarrow>
     'a memory \<Rightarrow> 'a memory option"
  assumes "\<And>oc. K (FullyConnectedOp oc) = FullyConnectedOp_compute"
    and "backend_type ps \<in> supported_backends"
    and "fully_connected_layer_of_params env this i out ps = Inr n"
    and "s this = Some n"
  shows "\<exists>s'. forward_propagation K this ins outs s m = Some (s', None)"
proof -
  from assms(2,3) have kernel: "kernel_fwd n =
      Some (FullyConnectedOp \<lparr>oc_device = layer_device (new_layer env), oc_params = this\<rparr>)"
    and none: "parameters (base n) = []"
    by (auto simp add: of_params_supported parameters_def)
  have "oc_params (construction
      (FullyConnectedOp \<lparr>oc_device = layer_device (new_layer env), oc_params = this\<rparr>)) = this"
    by simp
  from forward_propagation_eq [where s = s and this = this, OF assms(4) kernel this,
      of K ins outs m]
  show ?thesis
    by (simp add: assms(1) none FullyConnectedOp_compute_no_weight find_parameter_def)
qed

text \<open>
  Claim C1 says that every Forward call on a constructed layer writes
  \<open>output = input \<cdot> weight\<^sup>T + bias\<close>. The code differs for a layer constructed by
  the constructor of lines 56 to 63, which registers no parameter: on the layer
  it builds from \<open>in_size = 3\<close>, \<open>out_size = 2\<close> and a record with
  \<open>bias = true\<close>, a Forward call on the input tensor at 11 (two rows of length
  3) and the allocated output tensor at 12 (two rows of length 2) rebinds the
  context and stamps in the hints as the claim says, but the parameter list it
  hands to the kernel is empty, and the forward kernel of the specification
  has no result on it: no row of the output is written.
\<close>

theorem forward_on_overload_layer:
  "fully_connected_layer_of_params example_collaborators 7 3 2
     \<lparr>parallellze = False, backend_type = internal, bias = True\<rparr> = Inr example_overload_layer \<and>
   map_option snd (forward_propagation observe_context 7 [11] [12]
       (Map.empty(7 \<mapsto> example_overload_layer)) ()) =
     Some \<lparr>ctx_in_data = Some [11], ctx_out_data = Some [12], ctx_out_grad = None,
            ctx_in_grad = None, ctx_parallelize = True, ctx_engine = internal,
            ctx_parameters = []\<rparr> \<and>
   map_option snd (forward_propagation forward_only_compute 7 [11] [12]
       (Map.empty(7 \<mapsto> example_overload_layer)) example_memory) = Some None \<and>
   example_memory 11 = Some [[1, 0, 2], [0, 1, 0]] \<and>
   example_memory 12 = Some [[0, 0], [0, 0]]"
proof -
  let ?s = "Map.empty(7 \<mapsto> example_overload_layer)"
  have at: "?s 7 = Some example_overload_layer"
    by simp
  have refers: "oc_params (construction (FullyConnectedOp \<lparr>oc_device = None, oc_params = 7\<rparr>)) = 7"
    by simp
  note call = forward_propagation_eq [where s = ?s and this = 7,
      OF at example_overload_layer_fields(1) refers]
  have seen: "map_option snd (forward_propagation observe_context 7 [11] [12] ?s ()) =
     Some \<lparr>ctx_in_data = Some [11], ctx_out_data = Some [12], ctx_out_grad = None,
            ctx_in_grad = None, ctx_parallelize = True, ctx_engine = internal,
            ctx_parameters = []\<rparr>"
    by (simp add: call observe_context_def example_overload_layer_fields new_context_example)
  have written: "map_option snd (forward_propagation forward_only_compute 7 [11] [12] ?s
      example_memory) = Some None"
    by (simp add: call forward_only_compute_def example_overload_layer_fields
        FullyConnectedOp_compute_no_weight find_parameter_def)
  have "example_memory 11 = Some [[1, 0, 2], [0, 1, 0]]"
    and "example_memory 12 = Some [[0, 0], [0, 0]]"
    by (simp_all add: example_memory_def)
  with example_overload_new seen written show ?thesis
    by simp
qed

end
